theory Spec2Isabelle
  imports Complex_Main "HOL-Library.AList"
begin

section \<open>The relay broker of flight-manager-relay\<close>

text \<open>
  The repository holds the relay server twice. The variant with reconnection tokens and
  the one-hour cleanup (the JavaScript document that follows the batch script in
  \<^verbatim>\<open>src/server/START-RELAY.bat\<close>, lines 58 to 347) is the one the specification
  describes; it is modelled in full. The earlier variant (\<^verbatim>\<open>src/unnamed/part_001\<close>)
  has the same \<^verbatim>\<open>generateRoomCode\<close>, \<^verbatim>\<open>join_room\<close>, \<^verbatim>\<open>relay\<close>,
  \<^verbatim>\<open>catch\<close> and secondary-close code, character for character; its
  \<^verbatim>\<open>register_pc\<close> branch and its primary-close branch differ and are modelled
  separately at the end of the definitions.
\<close>

subsection \<open>Code generator\<close>

text \<open>
  \<^verbatim>\<open>const chars = 'ABCDEFGHJKLMNPQRSTUVWXYZ23456789';\<close>
\<close>

definition chars :: string where
  "chars = ''ABCDEFGHJKLMNPQRSTUVWXYZ23456789''"

text \<open>
  \<^verbatim>\<open>String.prototype.charAt\<close>: the one-character string at the index, the empty string
  when the index is out of range.
\<close>

definition charAt :: "string \<Rightarrow> int \<Rightarrow> string" where
  "charAt s i = (if 0 \<le> i \<and> i < int (length s) then [s ! nat i] else [])"

text \<open>
  \<^verbatim>\<open>Math.floor(Math.random() * chars.length)\<close>. The draw of \<^verbatim>\<open>Math.random()\<close> is an
  input; a double in \<open>[0, 1)\<close> is a rational number and its product with 32 is exact in
  double arithmetic, so the real product and floor are the values the code computes.
\<close>

definition draw_index :: "real \<Rightarrow> int" where
  "draw_index r = \<lfloor>r * real (length chars)\<rfloor>"

text \<open>
  \<^verbatim>\<open>
  function generateRoomCode() {
    let code = '';
    for (let i = 0; i < 6; i++) {
      code += chars.charAt(Math.floor(Math.random() * chars.length));
    }
    return code;
  }
  \<close>
  \<open>rnd i\<close> is the draw of iteration \<open>i\<close>.
\<close>

function generateRoomCode_loop :: "(nat \<Rightarrow> real) \<Rightarrow> nat \<Rightarrow> string \<Rightarrow> string" where
  "generateRoomCode_loop rnd i code =
     (if i < 6 then generateRoomCode_loop rnd (i + 1) (code @ charAt chars (draw_index (rnd i)))
      else code)"
  by pat_completeness auto
termination
  by (relation "measure (\<lambda>(rnd, i, code). 6 - i)") auto

declare generateRoomCode_loop.simps [simp del]

definition generateRoomCode :: "(nat \<Rightarrow> real) \<Rightarrow> string" where
  "generateRoomCode rnd = generateRoomCode_loop rnd 0 []"

text \<open>The contract of \<^verbatim>\<open>Math.random()\<close> for the six draws of one call.\<close>

definition valid_draws :: "(nat \<Rightarrow> real) \<Rightarrow> bool" where
  "valid_draws rnd = (\<forall>i < 6. 0 \<le> rnd i \<and> rnd i < 1)"

subsection \<open>Values of the program\<close>

text \<open>
  A socket is known by its identity; \<^verbatim>\<open>readyState\<close> is the field of the
  \<^verbatim>\<open>ws\<close> library's socket object that the handlers read.
\<close>

type_synonym sock = nat

datatype ready_state = CONNECTING | OPEN | CLOSING | CLOSED

text \<open>
  A JavaScript number that \<^verbatim>\<open>JSON.parse\<close> can return: a finite double or an infinity
  (never \<^verbatim>\<open>NaN\<close>). The two zeros are one value here; \<^verbatim>\<open>JSON.stringify\<close> writes
  both as \<open>0\<close> and both are falsy.
\<close>

datatype number = Finite real | PosInf | NegInf

text \<open>
  The values \<^verbatim>\<open>JSON.parse\<close> returns. An object is the list of its own properties in
  the order of their creation (keys distinct, as in a JavaScript object).
\<close>

datatype json =
    JNull
  | JBool bool
  | JNum number
  | JStr string
  | JArr "json list"
  | JObj "(string \<times> json) list"

subsection \<open>JSON texts, parsing and writing\<close>

text \<open>
  A JSON text, as the value it denotes: a number is the exact value of its literal, an
  object is the list of its members in the order of the text, duplicate names included.
  White space, escapes and the spelling of a number are not part of it.
\<close>

datatype doc =
    DNull
  | DBool bool
  | DNum real
  | DStr string
  | DArr "doc list"
  | DObj "(string \<times> doc) list"

text \<open>
  The number \<^verbatim>\<open>JSON.parse\<close> reads from a literal is the double nearest to its value,
  ties going to the even significand, and an infinity when that rounding reaches
  \<open>2 ^ 1024\<close> (ECMAScript, the Number value for a mathematical value). The test
  \<open>2 ^ 1024 \<le> a\<close> ahead of the rounding only spares the rounding for such values: it
  gives what the rounding would.
\<close>

definition round_half_even :: "real \<Rightarrow> int" where
  "round_half_even q =
     (let f = \<lfloor>q\<rfloor>; d = q - of_int f
      in if d < 1 / 2 then f else if 1 / 2 < d then f + 1 else if even f then f else f + 1)"

definition to_double :: "real \<Rightarrow> number" where
  "to_double x =
     (let a = \<bar>x\<bar> in
      if a = 0 then Finite 0
      else if 2 ^ 1024 \<le> a then (if 0 < x then PosInf else NegInf)
      else
        (let e = max \<lfloor>log 2 a\<rfloor> (- 1022);
             ulp = 2 powr (of_int e - 52);
             r = of_int (round_half_even (a / ulp)) * ulp
         in if 2 ^ 1024 \<le> r then (if 0 < x then PosInf else NegInf)
            else Finite (if 0 < x then r else - r)))"

text \<open>
  \<^verbatim>\<open>JSON.parse\<close> creates the properties of an object in the order of the text; a name
  that comes again overwrites the value and keeps the place of the first.
\<close>

definition create_properties :: "(string \<times> 'v) list \<Rightarrow> (string \<times> 'v) list" where
  "create_properties ps = foldl (\<lambda>al kv. AList.update (fst kv) (snd kv) al) [] ps"

primrec JSON_parse :: "doc \<Rightarrow> json" where
  "JSON_parse DNull = JNull"
| "JSON_parse (DBool b) = JBool b"
| "JSON_parse (DNum x) = JNum (to_double x)"
| "JSON_parse (DStr s) = JStr s"
| "JSON_parse (DArr xs) = JArr (map JSON_parse xs)"
| "JSON_parse (DObj ps) = JObj (create_properties (map (map_prod id JSON_parse) ps))"


text \<open>
  A property name is an array index when it is the decimal numeral, without leading zeros,
  of a number below \<open>2 ^ 32 - 1\<close>. \<^verbatim>\<open>JSON.stringify\<close> writes the properties of an
  object with the array indices first, in ascending order, and the other names after them
  in the order of their creation; it writes an infinity as \<^verbatim>\<open>null\<close>.
\<close>

definition digit_of :: "char \<Rightarrow> nat option" where
  "digit_of c = map_of (zip ''0123456789'' [0, 1, 2, 3, 4, 5, 6, 7, 8, 9]) c"

definition array_index :: "string \<Rightarrow> nat option" where
  "array_index k =
     (if k \<noteq> [] \<and> list_all (\<lambda>c. digit_of c \<noteq> None) k \<and> (length k = 1 \<or> hd k \<noteq> CHR ''0'')
      then (let n = foldl (\<lambda>n c. 10 * n + (case digit_of c of None \<Rightarrow> 0 | Some d \<Rightarrow> d)) 0 k
            in if n < 4294967295 then Some n else None)
      else None)"

definition index_or_zero :: "string \<Rightarrow> nat" where
  "index_or_zero k = (case array_index k of None \<Rightarrow> 0 | Some n \<Rightarrow> n)"

definition property_order :: "(string \<times> 'v) list \<Rightarrow> (string \<times> 'v) list" where
  "property_order fs =
     sort_key (\<lambda>kv. index_or_zero (fst kv)) (filter (\<lambda>kv. array_index (fst kv) \<noteq> None) fs)
     @ filter (\<lambda>kv. array_index (fst kv) = None) fs"

primrec JSON_stringify :: "json \<Rightarrow> doc" where
  "JSON_stringify JNull = DNull"
| "JSON_stringify (JBool b) = DBool b"
| "JSON_stringify (JNum n) = (case n of Finite x \<Rightarrow> DNum x | PosInf \<Rightarrow> DNull | NegInf \<Rightarrow> DNull)"
| "JSON_stringify (JStr s) = DStr s"
| "JSON_stringify (JArr xs) = DArr (map JSON_stringify xs)"
| "JSON_stringify (JObj fs) = DObj (property_order (map (map_prod id JSON_stringify) fs))"

subsection \<open>Effects and property access\<close>

datatype js_error = SyntaxError | TypeError

datatype device = Pc | Mobile

text \<open>
  What a handler does to the outside: \<^verbatim>\<open>socket.send(JSON.stringify(obj))\<close>, with the
  text that is written, and \<^verbatim>\<open>socket.close()\<close>, in the order of the calls. A
  \<^verbatim>\<open>send\<close> is recorded whatever the state of the receiving socket is; it does not throw
  (the handlers hold no socket that is still connecting).
\<close>

datatype effect = Send sock doc | Close sock

text \<open>
  \<^verbatim>\<open>data.k\<close> on a parsed value other than \<^verbatim>\<open>null\<close>: the property of an object,
  \<^verbatim>\<open>undefined\<close> (\<open>None\<close>) otherwise. None of the names the handlers read
  (\<^verbatim>\<open>type\<close>, \<^verbatim>\<open>roomCode\<close>, \<^verbatim>\<open>payload\<close>, \<^verbatim>\<open>reconnectionToken\<close>,
  \<^verbatim>\<open>requestedRoomCode\<close>) is a property of a number, boolean, string or array. On
  \<^verbatim>\<open>null\<close> the access throws; the handler body checks that case first.
\<close>

definition prop_of :: "json \<Rightarrow> string \<Rightarrow> json option" where
  "prop_of data k = (case data of JObj fs \<Rightarrow> map_of fs k | _ \<Rightarrow> None)"

text \<open>JavaScript truthiness of a parsed value or \<^verbatim>\<open>undefined\<close>.\<close>

fun truthy :: "json option \<Rightarrow> bool" where
  "truthy None = False"
| "truthy (Some JNull) = False"
| "truthy (Some (JBool b)) = b"
| "truthy (Some (JNum n)) = (n \<noteq> Finite 0)"
| "truthy (Some (JStr s)) = (s \<noteq> [])"
| "truthy (Some (JArr xs)) = True"
| "truthy (Some (JObj fs)) = True"

text \<open>
  \<^verbatim>\<open>String.prototype.toUpperCase\<close> is defined on all of Unicode by the library. The
  handlers below take it as a parameter \<open>up\<close>, so what is proved of them for every
  \<open>up\<close> holds of the library's function. \<open>toUpperCase\<close> is that function on ASCII
  text: the letters \<open>a\<close> to \<open>z\<close> go to \<open>A\<close> to \<open>Z\<close> and every other ASCII
  character stays; it is used where the strings are ASCII (room codes are). A character
  outside ASCII is in a string as the bytes of its UTF-8 encoding.
\<close>

definition lower_letters :: string where
  "lower_letters = ''abcdefghijklmnopqrstuvwxyz''"

definition upper_letters :: string where
  "upper_letters = ''ABCDEFGHIJKLMNOPQRSTUVWXYZ''"

definition toUpperCase_char :: "char \<Rightarrow> char" where
  "toUpperCase_char c = (case map_of (zip lower_letters upper_letters) c of None \<Rightarrow> c | Some u \<Rightarrow> u)"

definition toUpperCase :: "string \<Rightarrow> string" where
  "toUpperCase s = map toUpperCase_char s"

subsection \<open>Rooms, sessions and the broker's state\<close>

text \<open>
  \<^verbatim>\<open>{ pc: ws, mobile: null, reconnectionToken: reconnectionToken, createdAt: new Date() }\<close>
  and the \<^verbatim>\<open>cleanupTimeout\<close> property the close handler adds and the reconnection
  removes.
\<close>

record room =
  pc :: "sock option"
  mobile :: "sock option"
  reconnectionToken :: string
  createdAt :: nat
  cleanupTimeout :: "nat option"

text \<open>
  \<^verbatim>\<open>rooms\<close> and \<^verbatim>\<open>reconnectionTokens\<close> are JavaScript \<^verbatim>\<open>Map\<close>s: association
  lists in insertion order, \<^verbatim>\<open>set\<close> is \<^const>\<open>AList.update\<close>, \<^verbatim>\<open>delete\<close> is
  \<^const>\<open>AList.delete\<close>, \<^verbatim>\<open>get\<close> is \<^const>\<open>map_of\<close>. \<open>timers\<close> holds the pending
  \<^verbatim>\<open>setTimeout\<close> tasks: handle, due time in milliseconds, and the room code the
  callback's closure holds. \<open>now\<close> is the clock in milliseconds.
\<close>

record broker =
  rooms :: "(string \<times> room) list"
  reconnectionTokens :: "(string \<times> string) list"
  readyState :: "sock \<Rightarrow> ready_state"
  timers :: "(nat \<times> nat \<times> string) list"
  nextTimer :: nat
  now :: nat

text \<open>\<^verbatim>\<open>let currentRoom = null; let deviceType = null;\<close> of one connection.\<close>

record session =
  currentRoom :: "string option"
  deviceType :: "device option"

definition new_session :: session where
  "new_session = \<lparr>currentRoom = None, deviceType = None\<rparr>"

definition new_broker :: broker where
  "new_broker = \<lparr>rooms = [], reconnectionTokens = [], readyState = (\<lambda>s. OPEN),
                  timers = [], nextTimer = 0, now = 0\<rparr>"

text \<open>
  \<^verbatim>\<open>socket.close()\<close> of the library on an open socket: the socket is \<^verbatim>\<open>CLOSING\<close> from
  then on (its close event comes later). The handlers call it on open sockets only.
\<close>

definition close_socket :: "sock \<Rightarrow> broker \<Rightarrow> broker" where
  "close_socket s st = st\<lparr>readyState := (readyState st)(s := CLOSING)\<rparr>"

text \<open>\<^verbatim>\<open>sock && sock.readyState === WebSocket.OPEN\<close> for a slot of a room.\<close>

definition is_open :: "broker \<Rightarrow> sock option \<Rightarrow> bool" where
  "is_open st slot = (case slot of None \<Rightarrow> False | Some s \<Rightarrow> readyState st s = OPEN)"

text \<open>\<^verbatim>\<open>setTimeout(callback, 3600000)\<close> and \<^verbatim>\<open>clearTimeout(handle)\<close>.\<close>

definition setTimeout :: "string \<Rightarrow> nat \<Rightarrow> broker \<Rightarrow> nat \<times> broker" where
  "setTimeout code delay st =
     (nextTimer st,
      st\<lparr>timers := timers st @ [(nextTimer st, now st + delay, code)],
         nextTimer := nextTimer st + 1\<rparr>)"

definition clearTimeout :: "nat \<Rightarrow> broker \<Rightarrow> broker" where
  "clearTimeout h st = st\<lparr>timers := AList.delete h (timers st)\<rparr>"

subsection \<open>Messages the broker sends\<close>

text \<open>
  The texts \<^verbatim>\<open>JSON.stringify\<close> writes for the object literals of the handlers. Their
  property names are no array indices, so they are written in the order of the literal.
\<close>

definition msg_error :: "string \<Rightarrow> doc" where
  "msg_error m = DObj [(''type'', DStr ''error''), (''message'', DStr m)]"

definition msg_registered :: "string \<Rightarrow> json option \<Rightarrow> bool \<Rightarrow> doc" where
  \<comment> \<open>a property whose value is \<^verbatim>\<open>undefined\<close> is left out by \<^verbatim>\<open>JSON.stringify\<close>\<close>
  "msg_registered roomCode token isReconnection =
     DObj ([(''type'', DStr ''registered''),
            (''roomCode'', DStr roomCode)]
           @ (case token of None \<Rightarrow> [] | Some t \<Rightarrow> [(''reconnectionToken'', JSON_stringify t)])
           @ [(''isReconnection'', DBool isReconnection),
              (''message'', DStr (''PC registered with code: '' @ roomCode))])"

definition msg_connected :: doc where
  "msg_connected = DObj [(''type'', DStr ''connected''),
                         (''message'', DStr ''Connected to PC successfully'')]"

definition msg_mobile_connected :: doc where
  "msg_mobile_connected = DObj [(''type'', DStr ''mobile_connected''),
                                (''message'', DStr ''Mobile device connected'')]"

definition msg_pc_disconnected :: doc where
  "msg_pc_disconnected = DObj [(''type'', DStr ''pc_disconnected''),
                               (''message'', DStr ''PC disconnected'')]"

definition msg_mobile_disconnected :: doc where
  "msg_mobile_disconnected = DObj [(''type'', DStr ''mobile_disconnected''),
                                   (''message'', DStr ''Mobile disconnected'')]"

text \<open>
  \<^verbatim>\<open>JSON.stringify({ type: 'data', payload: data.payload })\<close>; a property is left out
  when its value is \<^verbatim>\<open>undefined\<close>.
\<close>

definition msg_data :: "json option \<Rightarrow> doc" where
  "msg_data payload =
     DObj ((''type'', DStr ''data'')
           # (case payload of None \<Rightarrow> [] | Some p \<Rightarrow> [(''payload'', JSON_stringify p)]))"

subsection \<open>Registration\<close>

text \<open>
  \<^verbatim>\<open>
  function generateReconnectionToken() {
    return Math.random().toString(36).substring(2) + Date.now().toString(36);
  }
  \<close>
  The two strings the library calls return are inputs: \<open>r36\<close> is
  \<^verbatim>\<open>Math.random().toString(36)\<close> and \<open>d36\<close> is \<^verbatim>\<open>Date.now().toString(36)\<close>.
\<close>

definition generateReconnectionToken :: "string \<times> string \<Rightarrow> string" where
  "generateReconnectionToken tk = (case tk of (r36, d36) \<Rightarrow> drop 2 r36 @ d36)"

text \<open>
  \<^verbatim>\<open>reconnectionTokens.get(data.reconnectionToken)\<close>: the keys of the map are strings,
  so a key of any other kind finds nothing.
\<close>

definition tokens_get :: "(string \<times> string) list \<Rightarrow> json option \<Rightarrow> string option" where
  "tokens_get toks key = (case key of Some (JStr t) \<Rightarrow> map_of toks t | _ \<Rightarrow> None)"

text \<open>
  The reconnection attempt of \<^verbatim>\<open>register_pc\<close>:
  \<^verbatim>\<open>
  if (data.reconnectionToken && data.requestedRoomCode) {
    const storedRoomCode = reconnectionTokens.get(data.reconnectionToken);
    if (storedRoomCode === data.requestedRoomCode && rooms.has(storedRoomCode)) {
      const existingRoom = rooms.get(storedRoomCode);
      if (existingRoom.cleanupTimeout) {
        clearTimeout(existingRoom.cleanupTimeout);
        delete existingRoom.cleanupTimeout;
      }
      if (existingRoom.pc && existingRoom.pc.readyState === WebSocket.OPEN) {
        try { existingRoom.pc.close(); } catch (e) { ... }
      }
      roomCode = storedRoomCode;
      reconnectionToken = data.reconnectionToken;
      existingRoom.pc = ws;
      isReconnection = true;
    }
  }
  \<close>
  The result is \<open>(roomCode, reconnectionToken, isReconnection)\<close> with the new state and
  the effects; \<open>roomCode = None\<close> is the variable left \<^verbatim>\<open>undefined\<close>.
\<close>

definition reclaim_room ::
  "sock \<Rightarrow> json \<Rightarrow> broker \<Rightarrow> (string option \<times> json option \<times> bool) \<times> broker \<times> effect list" where
  "reclaim_room ws data st =
     (if truthy (prop_of data ''reconnectionToken'') \<and> truthy (prop_of data ''requestedRoomCode'') then
        (case tokens_get (reconnectionTokens st) (prop_of data ''reconnectionToken'') of
           None \<Rightarrow> ((None, None, False), st, [])
         | Some storedRoomCode \<Rightarrow>
             (if prop_of data ''requestedRoomCode'' = Some (JStr storedRoomCode) then
                (case map_of (rooms st) storedRoomCode of
                   None \<Rightarrow> ((None, None, False), st, [])
                 | Some existingRoom \<Rightarrow>
                     (let st1 = (case cleanupTimeout existingRoom of
                                   None \<Rightarrow> st
                                 | Some h \<Rightarrow> clearTimeout h st);
                          closes = is_open st1 (pc existingRoom);
                          st2 = (case pc existingRoom of
                                   None \<Rightarrow> st1
                                 | Some p \<Rightarrow> if closes then close_socket p st1 else st1);
                          out = (case pc existingRoom of
                                   None \<Rightarrow> []
                                 | Some p \<Rightarrow> if closes then [Close p] else []);
                          st3 = st2\<lparr>rooms := AList.update storedRoomCode
                                     (existingRoom\<lparr>cleanupTimeout := None, pc := Some ws\<rparr>) (rooms st2)\<rparr>
                      in ((Some storedRoomCode, prop_of data ''reconnectionToken'', True), st3, out)))
              else ((None, None, False), st, [])))
      else ((None, None, False), st, []))"

text \<open>
  The rest of the \<^verbatim>\<open>register_pc\<close> branch:
  \<^verbatim>\<open>
  if (!roomCode) {
    roomCode = generateRoomCode();
    reconnectionToken = generateReconnectionToken();
    rooms.set(roomCode, { pc: ws, mobile: null,
                          reconnectionToken: reconnectionToken, createdAt: new Date() });
    reconnectionTokens.set(reconnectionToken, roomCode);
  }
  currentRoom = roomCode;
  deviceType = 'pc';
  ws.send(JSON.stringify({ type: 'registered', roomCode: roomCode,
    reconnectionToken: reconnectionToken, isReconnection: isReconnection,
    message: `PC registered with code: ${roomCode}` }));
  \<close>
  \<^verbatim>\<open>!roomCode\<close> holds for \<^verbatim>\<open>undefined\<close> and for the empty string.
\<close>

definition fresh_room :: "sock \<Rightarrow> string \<Rightarrow> nat \<Rightarrow> room" where
  "fresh_room ws token t =
     \<lparr>pc = Some ws, mobile = None, reconnectionToken = token, createdAt = t, cleanupTimeout = None\<rparr>"

definition create_room ::
  "(nat \<Rightarrow> real) \<Rightarrow> string \<times> string \<Rightarrow> sock \<Rightarrow> broker \<Rightarrow> string \<times> json option \<times> broker" where
  \<comment> \<open>the body of \<^verbatim>\<open>if (!roomCode) { ... }\<close>\<close>
  "create_room rnd tk ws st =
     (let roomCode = generateRoomCode rnd;
          reconnectionToken = generateReconnectionToken tk;
          st1 = st\<lparr>rooms := AList.update roomCode
                              (fresh_room ws reconnectionToken (now st)) (rooms st)\<rparr>;
          st2 = st1\<lparr>reconnectionTokens :=
                      AList.update reconnectionToken roomCode (reconnectionTokens st1)\<rparr>
      in (roomCode, Some (JStr reconnectionToken), st2))"

definition register_pc ::
  "(nat \<Rightarrow> real) \<Rightarrow> string \<times> string \<Rightarrow> sock \<Rightarrow> json \<Rightarrow> session \<times> broker
     \<Rightarrow> session \<times> broker \<times> effect list" where
  "register_pc rnd tk ws data sst =
     (case sst of (se, st) \<Rightarrow>
      (case reclaim_room ws data st of ((roomCode0, token0, isReconnection), st1, out1) \<Rightarrow>
        (case (case roomCode0 of
                 None \<Rightarrow> create_room rnd tk ws st1
               | Some rc \<Rightarrow> if rc = [] then create_room rnd tk ws st1 else (rc, token0, st1))
         of (roomCode, token, st2) \<Rightarrow>
           (\<lparr>currentRoom = Some roomCode, deviceType = Some Pc\<rparr>, st2,
            out1 @ [Send ws (msg_registered roomCode token isReconnection)]))))"

subsection \<open>Joining\<close>

text \<open>
  \<^verbatim>\<open>
  const roomCode = data.roomCode.toUpperCase();
  if (!rooms.has(roomCode)) {
    ws.send(JSON.stringify({ type: 'error', message: 'Invalid room code' }));
    return;
  }
  const room = rooms.get(roomCode);
  if (room.mobile) {
    try {
      if (room.mobile.readyState === WebSocket.OPEN) { room.mobile.close(); }
    } catch (e) { ... }
    room.mobile = null;
  }
  currentRoom = roomCode;
  deviceType = 'mobile';
  room.mobile = ws;
  ws.send(JSON.stringify({ type: 'connected', message: 'Connected to PC successfully' }));
  if (room.pc && room.pc.readyState === WebSocket.OPEN) {
    room.pc.send(JSON.stringify({ type: 'mobile_connected', message: 'Mobile device connected' }));
  }
  \<close>
  \<^verbatim>\<open>data.roomCode.toUpperCase()\<close> throws a \<^verbatim>\<open>TypeError\<close> unless
  \<^verbatim>\<open>data.roomCode\<close> is a string; nothing has been changed at that point. \<open>up\<close> is
  \<^verbatim>\<open>String.prototype.toUpperCase\<close>.
\<close>

definition join_room ::
  "(string \<Rightarrow> string) \<Rightarrow> sock \<Rightarrow> json \<Rightarrow> session \<times> broker
     \<Rightarrow> js_error + (session \<times> broker \<times> effect list)" where
  "join_room up ws data sst =
     (case sst of (se, st) \<Rightarrow>
      (case prop_of data ''roomCode'' of
         Some (JStr s) \<Rightarrow>
           (let roomCode = up s in
            (case map_of (rooms st) roomCode of
               None \<Rightarrow> Inr (se, st, [Send ws (msg_error ''Invalid room code'')])
             | Some room \<Rightarrow>
                 (let closes = is_open st (mobile room);
                      st1 = (case mobile room of
                               None \<Rightarrow> st
                             | Some m \<Rightarrow> if closes then close_socket m st else st);
                      out1 = (case mobile room of
                                None \<Rightarrow> []
                              | Some m \<Rightarrow> if closes then [Close m] else []);
                      st2 = st1\<lparr>rooms := AList.update roomCode (room\<lparr>mobile := Some ws\<rparr>) (rooms st1)\<rparr>;
                      out2 = [Send ws msg_connected];
                      out3 = (case pc room of
                                None \<Rightarrow> []
                              | Some p \<Rightarrow> if is_open st2 (Some p) then [Send p msg_mobile_connected] else [])
                  in Inr (\<lparr>currentRoom = Some roomCode, deviceType = Some Mobile\<rparr>, st2,
                          out1 @ out2 @ out3))))
       | _ \<Rightarrow> Inl TypeError))"

subsection \<open>Relaying\<close>

text \<open>
  \<^verbatim>\<open>
  if (!currentRoom || !rooms.has(currentRoom)) {
    ws.send(JSON.stringify({ type: 'error', message: 'Not in a room' }));
    return;
  }
  const room = rooms.get(currentRoom);
  if (deviceType === 'pc' && room.mobile && room.mobile.readyState === WebSocket.OPEN) {
    room.mobile.send(JSON.stringify({ type: 'data', payload: data.payload }));
  }
  else if (deviceType === 'mobile' && room.pc && room.pc.readyState === WebSocket.OPEN) {
    room.pc.send(JSON.stringify({ type: 'data', payload: data.payload }));
  }
  \<close>
\<close>

definition session_room :: "session \<Rightarrow> broker \<Rightarrow> (string \<times> room) option" where
  \<comment> \<open>\<^verbatim>\<open>currentRoom && rooms.has(currentRoom)\<close>, with the room\<close>
  "session_room se st =
     (case currentRoom se of
        None \<Rightarrow> None
      | Some c \<Rightarrow> if c = [] then None
                  else (case map_of (rooms st) c of None \<Rightarrow> None | Some room \<Rightarrow> Some (c, room)))"

definition relay :: "sock \<Rightarrow> json \<Rightarrow> session \<times> broker \<Rightarrow> session \<times> broker \<times> effect list" where
  "relay ws data sst =
     (case sst of (se, st) \<Rightarrow>
      (case session_room se st of
         None \<Rightarrow> (se, st, [Send ws (msg_error ''Not in a room'')])
       | Some (c, room) \<Rightarrow>
           (if deviceType se = Some Pc \<and> is_open st (mobile room) then
              (case mobile room of
                 Some m \<Rightarrow> (se, st, [Send m (msg_data (prop_of data ''payload''))])
               | None \<Rightarrow> (se, st, []))
            else if deviceType se = Some Mobile \<and> is_open st (pc room) then
              (case pc room of
                 Some p \<Rightarrow> (se, st, [Send p (msg_data (prop_of data ''payload''))])
               | None \<Rightarrow> (se, st, []))
            else (se, st, []))))"

subsection \<open>The message handler\<close>

text \<open>
  The body of the \<^verbatim>\<open>try\<close> block after \<^verbatim>\<open>JSON.parse\<close>. \<^verbatim>\<open>data.type\<close> throws a
  \<^verbatim>\<open>TypeError\<close> when \<^verbatim>\<open>data\<close> is \<^verbatim>\<open>null\<close>. A value with any other
  \<^verbatim>\<open>type\<close> falls through the \<^verbatim>\<open>if\<close> chain and nothing is done.
\<close>

definition handle_data ::
  "(string \<Rightarrow> string) \<Rightarrow> (nat \<Rightarrow> real) \<Rightarrow> string \<times> string \<Rightarrow> sock \<Rightarrow> json \<Rightarrow> session \<times> broker
     \<Rightarrow> js_error + (session \<times> broker \<times> effect list)" where
  "handle_data up rnd tk ws data sst =
     (if data = JNull then Inl TypeError
      else if prop_of data ''type'' = Some (JStr ''register_pc'') then Inr (register_pc rnd tk ws data sst)
      else if prop_of data ''type'' = Some (JStr ''join_room'') then join_room up ws data sst
      else if prop_of data ''type'' = Some (JStr ''relay'') then Inr (relay ws data sst)
      else Inr (fst sst, snd sst, []))"

text \<open>
  \<^verbatim>\<open>ws.on('message', (message) => { try { const data = JSON.parse(message); ... }
  catch (error) { ws.send(JSON.stringify({ type: 'error', message: 'Invalid message format' })); } })\<close>.
  The frame is given by what \<^verbatim>\<open>JSON.parse\<close> makes of it: \<open>None\<close> when it throws a
  \<^verbatim>\<open>SyntaxError\<close>. Every throw in the body comes before the first change of the state,
  so the handler that catches it leaves the state as it found it.
\<close>

definition on_message_with ::
  "(string \<Rightarrow> string) \<Rightarrow> (nat \<Rightarrow> real) \<Rightarrow> string \<times> string \<Rightarrow> sock \<Rightarrow> json option
     \<Rightarrow> session \<times> broker \<Rightarrow> session \<times> broker \<times> effect list" where
  "on_message_with up rnd tk ws message sst =
     (case (case message of None \<Rightarrow> Inl SyntaxError | Some data \<Rightarrow> handle_data up rnd tk ws data sst) of
        Inl error \<Rightarrow> (fst sst, snd sst, [Send ws (msg_error ''Invalid message format'')])
      | Inr result \<Rightarrow> result)"

text \<open>The handler on frames whose strings are ASCII.\<close>

definition on_message ::
  "(nat \<Rightarrow> real) \<Rightarrow> string \<times> string \<Rightarrow> sock \<Rightarrow> json option \<Rightarrow> session \<times> broker
     \<Rightarrow> session \<times> broker \<times> effect list" where
  "on_message rnd tk ws message sst = on_message_with toUpperCase rnd tk ws message sst"


subsection \<open>Closing and cleanup\<close>

text \<open>
  \<^verbatim>\<open>
  ws.on('close', () => {
    if (currentRoom && rooms.has(currentRoom)) {
      const room = rooms.get(currentRoom);
      if (deviceType === 'pc') {
        if (room.mobile && room.mobile.readyState === WebSocket.OPEN) {
          room.mobile.send(JSON.stringify({ type: 'pc_disconnected', message: 'PC disconnected' }));
        }
        const cleanupTimeout = setTimeout(() => { ... }, 3600000); // 1 hour
        room.cleanupTimeout = cleanupTimeout;
      } else if (deviceType === 'mobile') {
        room.mobile = null;
        if (room.pc && room.pc.readyState === WebSocket.OPEN) {
          room.pc.send(JSON.stringify({ type: 'mobile_disconnected', message: 'Mobile disconnected' }));
        }
      }
    }
  });
  \<close>
  The handler reads the connection's two variables and never the socket itself.
\<close>

definition on_close :: "session \<times> broker \<Rightarrow> broker \<times> effect list" where
  "on_close sst =
     (case sst of (se, st) \<Rightarrow>
      (case session_room se st of
         None \<Rightarrow> (st, [])
       | Some (c, room) \<Rightarrow>
           (if deviceType se = Some Pc then
              (let out = (case mobile room of
                            None \<Rightarrow> []
                          | Some m \<Rightarrow> if is_open st (Some m) then [Send m msg_pc_disconnected] else [])
               in (case setTimeout c 3600000 st of (h, st1) \<Rightarrow>
                     (st1\<lparr>rooms := AList.update c (room\<lparr>cleanupTimeout := Some h\<rparr>) (rooms st1)\<rparr>, out)))
            else if deviceType se = Some Mobile then
              (let st1 = st\<lparr>rooms := AList.update c (room\<lparr>mobile := None\<rparr>) (rooms st)\<rparr>;
                   out = (case pc room of
                            None \<Rightarrow> []
                          | Some p \<Rightarrow> if is_open st1 (Some p) then [Send p msg_mobile_disconnected] else [])
               in (st1, out))
            else (st, []))))"

text \<open>
  The library marks a socket \<^verbatim>\<open>CLOSED\<close> before it emits the close event.
\<close>

definition close_event :: "sock \<Rightarrow> session \<times> broker \<Rightarrow> broker \<times> effect list" where
  "close_event ws sst =
     (case sst of (se, st) \<Rightarrow> on_close (se, st\<lparr>readyState := (readyState st)(ws := CLOSED)\<rparr>))"

text \<open>
  The callback given to \<^verbatim>\<open>setTimeout\<close>; \<open>c\<close> is the \<^verbatim>\<open>currentRoom\<close> of its closure
  (a closed connection receives no further message, so the variable keeps the value it
  had when the connection closed):
  \<^verbatim>\<open>
  if (rooms.has(currentRoom)) {
    const room = rooms.get(currentRoom);
    if (room.reconnectionToken) { reconnectionTokens.delete(room.reconnectionToken); }
    rooms.delete(currentRoom);
  }
  \<close>
\<close>

definition cleanup_callback :: "string \<Rightarrow> broker \<Rightarrow> broker" where
  "cleanup_callback c st =
     (case map_of (rooms st) c of
        None \<Rightarrow> st
      | Some room \<Rightarrow>
          (let st1 = (if reconnectionToken room \<noteq> []
                      then st\<lparr>reconnectionTokens := AList.delete (reconnectionToken room) (reconnectionTokens st)\<rparr>
                      else st)
           in st1\<lparr>rooms := AList.delete c (rooms st1)\<rparr>))"

text \<open>
  The event loop runs a pending task once its due time has come: \<open>None\<close> when the handle
  is not pending or not yet due.
\<close>

definition fire_timer :: "nat \<Rightarrow> broker \<Rightarrow> broker option" where
  "fire_timer h st =
     (case map_of (timers st) h of
        None \<Rightarrow> None
      | Some (due, c) \<Rightarrow>
          if due \<le> now st then Some (cleanup_callback c (st\<lparr>timers := AList.delete h (timers st)\<rparr>))
          else None)"

definition advance :: "nat \<Rightarrow> broker \<Rightarrow> broker" where
  \<comment> \<open>time passes\<close>
  "advance d st = st\<lparr>now := now st + d\<rparr>"

subsection \<open>The earlier variant of the server\<close>

text \<open>
  \<^verbatim>\<open>src/unnamed/part_001\<close> has no token map and no timers; a room is
  \<^verbatim>\<open>{ pc: ws, mobile: null }\<close>. Its \<^verbatim>\<open>register_pc\<close> branch (lines 38 to 52):
  \<^verbatim>\<open>
  const roomCode = generateRoomCode();
  currentRoom = roomCode;
  deviceType = 'pc';
  rooms.set(roomCode, { pc: ws, mobile: null });
  ws.send(JSON.stringify({ type: 'registered', roomCode: roomCode,
    message: `PC registered with code: ${roomCode}` }));
  \<close>
  and the primary's part of its close handler (lines 142 to 155):
  \<^verbatim>\<open>
  if (currentRoom && rooms.has(currentRoom)) {
    const room = rooms.get(currentRoom);
    if (deviceType === 'pc') {
      if (room.mobile && room.mobile.readyState === WebSocket.OPEN) {
        room.mobile.send(JSON.stringify({ type: 'pc_disconnected', message: 'PC disconnected' }));
      }
      rooms.delete(currentRoom);
    } ...
  \<close>
\<close>

record room_v1 =
  pc_v1 :: "sock option"
  mobile_v1 :: "sock option"

definition msg_registered_v1 :: "string \<Rightarrow> doc" where
  "msg_registered_v1 roomCode =
     DObj [(''type'', DStr ''registered''),
           (''roomCode'', DStr roomCode),
           (''message'', DStr (''PC registered with code: '' @ roomCode))]"

definition register_pc_v1 ::
  "(nat \<Rightarrow> real) \<Rightarrow> sock \<Rightarrow> json \<Rightarrow> session \<times> (string \<times> room_v1) list
     \<Rightarrow> session \<times> (string \<times> room_v1) list \<times> effect list" where
  "register_pc_v1 rnd ws data srs =
     (case srs of (se, rs) \<Rightarrow>
      (let roomCode = generateRoomCode rnd
       in (\<lparr>currentRoom = Some roomCode, deviceType = Some Pc\<rparr>,
           AList.update roomCode \<lparr>pc_v1 = Some ws, mobile_v1 = None\<rparr> rs,
           [Send ws (msg_registered_v1 roomCode)])))"

definition on_close_pc_v1 ::
  "(sock \<Rightarrow> ready_state) \<Rightarrow> string \<Rightarrow> (string \<times> room_v1) list
     \<Rightarrow> (string \<times> room_v1) list \<times> effect list" where
  \<comment> \<open>the close handler for \<^verbatim>\<open>deviceType === 'pc'\<close> and \<^verbatim>\<open>currentRoom\<close> \<open>c\<close>\<close>
  "on_close_pc_v1 ready c rs =
     (if c = [] then (rs, [])
      else (case map_of rs c of
              None \<Rightarrow> (rs, [])
            | Some room \<Rightarrow>
                (AList.delete c rs,
                 (case mobile_v1 room of
                    None \<Rightarrow> []
                  | Some m \<Rightarrow> if ready m = OPEN then [Send m msg_pc_disconnected] else []))))"

subsection \<open>Notions the properties are stated with\<close>

text \<open>The sockets a room refers to.\<close>

definition slots :: "room \<Rightarrow> sock list" where
  "slots r = (case pc r of None \<Rightarrow> [] | Some s \<Rightarrow> [s]) @ (case mobile r of None \<Rightarrow> [] | Some s \<Rightarrow> [s])"

text \<open>No socket is referred to by two rooms with different codes.\<close>

definition exclusive :: "(string \<times> room) list \<Rightarrow> bool" where
  "exclusive rs =
     (\<forall>x \<in> set rs. \<forall>y \<in> set rs. fst x \<noteq> fst y \<longrightarrow> set (slots (snd x)) \<inter> set (slots (snd y)) = {})"

text \<open>Every room that refers to the socket has the given code.\<close>

definition referenced_only_in :: "sock \<Rightarrow> string option \<Rightarrow> (string \<times> room) list \<Rightarrow> bool" where
  "referenced_only_in ws c rs = (\<forall>x \<in> set rs. ws \<in> set (slots (snd x)) \<longrightarrow> c = Some (fst x))"

text \<open>The sockets of the room under a code, none when there is no such room.\<close>

definition old_slots :: "(string \<times> room) list \<Rightarrow> string \<Rightarrow> sock set" where
  "old_slots rs c = (case map_of rs c of None \<Rightarrow> {} | Some r \<Rightarrow> set (slots r))"

text \<open>
  A change of the registry that writes one entry, whose sockets are among those the entry
  had before and the acting socket.
\<close>

definition room_step :: "sock \<Rightarrow> string \<Rightarrow> (string \<times> room) list \<Rightarrow> (string \<times> room) list \<Rightarrow> bool" where
  "room_step ws c rs rs' =
     (\<exists>v. rs' = AList.update c v rs \<and> set (slots v) \<subseteq> insert ws (old_slots rs c))"

text \<open>The primaries and the secondaries bound to the room with a code.\<close>

definition bound_primaries :: "broker \<Rightarrow> string \<Rightarrow> sock set" where
  "bound_primaries st c = (case map_of (rooms st) c of None \<Rightarrow> {} | Some r \<Rightarrow> set_option (pc r))"

definition bound_secondaries :: "broker \<Rightarrow> string \<Rightarrow> sock set" where
  "bound_secondaries st c = (case map_of (rooms st) c of None \<Rightarrow> {} | Some r \<Rightarrow> set_option (mobile r))"


text \<open>
  The envelopes of the protocol that a socket sends: an object whose \<^verbatim>\<open>type\<close> is
  \<^verbatim>\<open>register_pc\<close>, \<^verbatim>\<open>join_room\<close> with a string \<^verbatim>\<open>roomCode\<close>, or
  \<^verbatim>\<open>relay\<close> (whose payload is opaque and may be anything or absent). A frame is
  malformed when it is not JSON or is JSON for something that is no envelope.
\<close>

definition is_string :: "json option \<Rightarrow> bool" where
  "is_string v = (case v of Some (JStr s) \<Rightarrow> True | _ \<Rightarrow> False)"

definition envelope :: "json \<Rightarrow> bool" where
  "envelope data =
     (prop_of data ''type'' = Some (JStr ''register_pc'')
      \<or> (prop_of data ''type'' = Some (JStr ''join_room'') \<and> is_string (prop_of data ''roomCode''))
      \<or> prop_of data ''type'' = Some (JStr ''relay''))"

definition malformed :: "json option \<Rightarrow> bool" where
  "malformed message = (case message of None \<Rightarrow> True | Some data \<Rightarrow> \<not> envelope data)"

text \<open>
  The frames the handler cannot read: a text that is not JSON, \<^verbatim>\<open>null\<close>, and a
  \<^verbatim>\<open>join_room\<close> whose \<^verbatim>\<open>roomCode\<close> is missing or not a string.
\<close>

definition unreadable :: "json option \<Rightarrow> bool" where
  "unreadable message =
     (case message of
        None \<Rightarrow> True
      | Some data \<Rightarrow>
          data = JNull
          \<or> (prop_of data ''type'' = Some (JStr ''join_room'') \<and> \<not> is_string (prop_of data ''roomCode'')))"


text \<open>Two strings that differ in the case of ASCII letters only.\<close>

definition toLowerCase_char :: "char \<Rightarrow> char" where
  "toLowerCase_char c = (case map_of (zip upper_letters lower_letters) c of None \<Rightarrow> c | Some l \<Rightarrow> l)"

definition same_ignoring_case :: "string \<Rightarrow> string \<Rightarrow> bool" where
  "same_ignoring_case s c = (map toLowerCase_char s = map toLowerCase_char c)"

subsection \<open>Concrete inputs\<close>

text \<open>
  Draws that make \<^const>\<open>generateRoomCode\<close> return \<open>AEJNSW\<close>, and others that make it
  return \<open>AAAAAA\<close>; library strings that make the token \<open>k3x9lq2f\<close>.
\<close>

definition ex_rnd :: "nat \<Rightarrow> real" where
  "ex_rnd i = real i / 8"

definition ex_rnd0 :: "nat \<Rightarrow> real" where
  "ex_rnd0 i = 0"

definition ex_tk :: "string \<times> string" where
  "ex_tk = (''0.k3x9'', ''lq2f'')"

definition ex_register :: json where
  "ex_register = JObj [(''type'', JStr ''register_pc'')]"

definition ex_reconnect :: "string \<Rightarrow> string \<Rightarrow> json" where
  "ex_reconnect t c =
     JObj [(''type'', JStr ''register_pc''), (''reconnectionToken'', JStr t),
           (''requestedRoomCode'', JStr c)]"

definition ex_join :: "string \<Rightarrow> json" where
  "ex_join c = JObj [(''type'', JStr ''join_room''), (''roomCode'', JStr c)]"

text \<open>
  The code \<open>AEJN\<close>, U+017F (long s, in UTF-8 the bytes C5 BF), \<open>W\<close>, and an
  upper-casing function that takes it to \<open>AEJNSW\<close>, as the library's does.
\<close>

definition ex_long_s_code :: string where
  "ex_long_s_code = ''AEJN'' @ [CHR 0xC5, CHR 0xBF] @ ''W''"

definition ex_up :: "string \<Rightarrow> string" where
  "ex_up s = (if s = ex_long_s_code then ''AEJNSW'' else toUpperCase s)"

definition ex_relay :: "json \<Rightarrow> json" where
  "ex_relay p = JObj [(''type'', JStr ''relay''), (''payload'', p)]"

text \<open>
  The broker after socket 1 has registered (code \<open>AEJNSW\<close>, token \<open>k3x9lq2f\<close>) and
  socket 2 has joined.
\<close>

definition ex_room :: room where
  "ex_room = \<lparr>pc = Some 1, mobile = Some 2, reconnectionToken = ''k3x9lq2f'',
              createdAt = 0, cleanupTimeout = None\<rparr>"

definition ex_broker :: broker where
  "ex_broker = \<lparr>rooms = [(''AEJNSW'', ex_room)],
                reconnectionTokens = [(''k3x9lq2f'', ''AEJNSW'')],
                readyState = (\<lambda>s. OPEN), timers = [], nextTimer = 0, now = 0\<rparr>"

definition ex_pc_session :: session where
  "ex_pc_session = \<lparr>currentRoom = Some ''AEJNSW'', deviceType = Some Pc\<rparr>"

definition ex_mobile_session :: session where
  "ex_mobile_session = \<lparr>currentRoom = Some ''AEJNSW'', deviceType = Some Mobile\<rparr>"

text \<open>That broker after the connection of socket 1 has closed.\<close>

definition ex_orphaned :: broker where
  "ex_orphaned = fst (close_event 1 (ex_pc_session, ex_broker))"

text \<open>Library strings that make the token \<open>zzlq2g\<close>.\<close>

definition ex_tk2 :: "string \<times> string" where
  "ex_tk2 = (''0.zz'', ''lq2g'')"

text \<open>The broker of above with a second room, \<open>AAAAAA\<close>, whose primary is socket 4.\<close>

definition ex_broker2 :: broker where
  "ex_broker2 = ex_broker\<lparr>rooms := rooms ex_broker @ [(''AAAAAA'', fresh_room 4 ''zzlq2g'' 0)],
                  reconnectionTokens := reconnectionTokens ex_broker @ [(''zzlq2g'', ''AAAAAA'')]\<rparr>"

text \<open>
  A run of the broker from its start. Socket 1 registers and gets the code \<open>AEJNSW\<close> and
  the token \<open>k3x9lq2f\<close>. Socket 2 registers with that token and code while socket 1 is
  still open, so socket 1 is closed and socket 2 is the room's primary. The close event of
  socket 1 arrives (at time 0). Socket 2 stays for 59 minutes and then closes. One minute
  later the task that the close event of socket 1 scheduled is due and runs.
\<close>

definition trace_register :: "session \<times> broker \<times> effect list" where
  "trace_register = on_message ex_rnd ex_tk 1 (Some ex_register) (new_session, new_broker)"

definition trace_reclaim :: "session \<times> broker \<times> effect list" where
  "trace_reclaim = on_message ex_rnd0 ex_tk2 2 (Some (ex_reconnect ''k3x9lq2f'' ''AEJNSW'')) (new_session, fst (snd trace_register))"

definition trace_close_old :: "broker \<times> effect list" where
  "trace_close_old = close_event 1 (fst trace_register, fst (snd trace_reclaim))"

definition trace_close_new :: "broker \<times> effect list" where
  "trace_close_new = close_event 2 (fst trace_reclaim, advance 3540000 (fst trace_close_old))"

definition trace_cleanup :: "broker option" where
  "trace_cleanup = fire_timer 0 (advance 60000 (fst trace_close_new))"

text \<open>Socket 1 registers, and then registers once more.\<close>

definition trace_register_again :: "session \<times> broker \<times> effect list" where
  "trace_register_again = on_message ex_rnd0 ex_tk2 1 (Some ex_register) (fst trace_register, fst (snd trace_register))"

text \<open>
  The run that leads to \<open>trace_close_new\<close> goes on: when socket 2 has closed (at
  3540000 ms), socket 3 registers with the token and the code; one minute later the task of
  socket 1's close event runs.
\<close>

definition trace_reclaim_late :: "session \<times> broker \<times> effect list" where
  "trace_reclaim_late = on_message ex_rnd0 ex_tk2 3 (Some (ex_reconnect ''k3x9lq2f'' ''AEJNSW'')) (new_session, fst trace_close_new)"

definition trace_cleanup_late :: "broker option" where
  "trace_cleanup_late = fire_timer 0 (advance 60000 (fst (snd trace_reclaim_late)))"

text \<open>
  Socket 3 joins the room \<open>AEJNSW\<close> of sockets 1 and 2, and the close event of the
  replaced socket 2 follows.
\<close>

definition trace_join_replace :: "session \<times> broker \<times> effect list" where
  "trace_join_replace = on_message ex_rnd ex_tk 3 (Some (ex_join ''AEJNSW'')) (new_session, ex_broker)"

definition trace_replaced_close :: "broker \<times> effect list" where
  "trace_replaced_close = close_event 2 (ex_mobile_session, fst (snd trace_join_replace))"



section \<open>Properties\<close>

subsection \<open>Code generator\<close>

lemma length_chars: "length chars = 32"
  by (simp add: chars_def)

lemma draw_index_range:
  assumes "0 \<le> r" "r < 1"
  shows "0 \<le> draw_index r \<and> draw_index r < 32"
proof -
  have "0 \<le> r * 32" using assms by simp
  moreover have "r * 32 < 32" using assms by simp
  ultimately show ?thesis
    by (simp add: draw_index_def length_chars floor_less_iff)
qed

lemma charAt_in_range:
  assumes "0 \<le> i" "i < int (length s)"
  shows "length (charAt s i) = 1 \<and> set (charAt s i) \<subseteq> set s"
  using assms by (simp add: charAt_def)

lemma generateRoomCode_loop_shape:
  assumes "valid_draws rnd" "i \<le> 6"
  shows "length (generateRoomCode_loop rnd i code) = length code + (6 - i)
       \<and> set (generateRoomCode_loop rnd i code) \<subseteq> set code \<union> set chars"
  using assms
proof (induction rnd i code rule: generateRoomCode_loop.induct)
  case (1 rnd i code)
  show ?case
  proof (cases "i < 6")
    case True
    let ?c = "charAt chars (draw_index (rnd i))"
    from True "1.prems" have r: "0 \<le> rnd i" "rnd i < 1"
      by (simp_all add: valid_draws_def)
    have ix: "0 \<le> draw_index (rnd i)" "draw_index (rnd i) < int (length chars)"
      using draw_index_range [OF r] by (simp_all add: length_chars)
    have c: "length ?c = 1" "set ?c \<subseteq> set chars"
      using charAt_in_range [OF ix] by simp_all
    have ih: "length (generateRoomCode_loop rnd (i + 1) (code @ ?c)) = length (code @ ?c) + (6 - (i + 1))
        \<and> set (generateRoomCode_loop rnd (i + 1) (code @ ?c)) \<subseteq> set (code @ ?c) \<union> set chars"
      using "1.IH" [OF True "1.prems"(1)] True by simp
    have unf: "generateRoomCode_loop rnd i code = generateRoomCode_loop rnd (i + 1) (code @ ?c)"
      using True by (subst generateRoomCode_loop.simps) simp
    show ?thesis
      using ih c True unfolding unf by auto
  next
    case False
    with "1.prems" have "i = 6" by simp
    then show ?thesis
      by (subst (1 2) generateRoomCode_loop.simps) simp
  qed
qed

text \<open>
  C9. Every call of \<^verbatim>\<open>generateRoomCode\<close> (with draws in \<open>[0, 1)\<close>, as
  \<^verbatim>\<open>Math.random\<close> gives them) returns a string of six characters, each from the fixed
  alphabet; the alphabet has 32 distinct symbols and contains none of \<open>0\<close>, \<open>O\<close>,
  \<open>1\<close>, \<open>I\<close>.
\<close>

theorem generateRoomCode_alphabet:
  assumes "valid_draws rnd"
  shows "length (generateRoomCode rnd) = 6
       \<and> set (generateRoomCode rnd) \<subseteq> set chars
       \<and> length chars \<ge> 32 \<and> distinct chars
       \<and> CHR ''0'' \<notin> set chars \<and> CHR ''O'' \<notin> set chars
       \<and> CHR ''1'' \<notin> set chars \<and> CHR ''I'' \<notin> set chars"
proof -
  have "length (generateRoomCode rnd) = 6 \<and> set (generateRoomCode rnd) \<subseteq> set chars"
    using generateRoomCode_loop_shape [OF assms, of 0 "[]"]
    by (simp add: generateRoomCode_def)
  moreover have "distinct chars" by (simp add: chars_def)
  moreover have "CHR ''0'' \<notin> set chars \<and> CHR ''O'' \<notin> set chars
       \<and> CHR ''1'' \<notin> set chars \<and> CHR ''I'' \<notin> set chars"
    by (simp add: chars_def)
  ultimately show ?thesis by (simp add: length_chars)
qed

theorem generateRoomCode_alphabet_witness:
  "valid_draws ex_rnd \<and> generateRoomCode ex_rnd = ''AEJNSW''
   \<and> length (generateRoomCode ex_rnd) = 6 \<and> set (generateRoomCode ex_rnd) \<subseteq> set chars"
  using generateRoomCode_alphabet [of ex_rnd]
  by (simp add: valid_draws_def ex_rnd_def generateRoomCode_def generateRoomCode_loop.simps
        draw_index_def charAt_def chars_def)

lemma generateRoomCode_shape:
  "valid_draws rnd \<Longrightarrow> length (generateRoomCode rnd) = 6 \<and> set (generateRoomCode rnd) \<subseteq> set chars"
  using generateRoomCode_loop_shape [where rnd = rnd and i = 0 and code = "[]"]
  by (simp add: generateRoomCode_def)

subsection \<open>Upper case\<close>

lemma toUpperCase_char_fix_all: "\<forall>c \<in> set chars. toUpperCase_char c = c"
  by (simp add: chars_def toUpperCase_char_def lower_letters_def upper_letters_def)

lemma toUpperCase_fix: "set c \<subseteq> set chars \<Longrightarrow> toUpperCase c = c"
  unfolding toUpperCase_def using toUpperCase_char_fix_all by (induction c) auto

lemma upper_lower: "toUpperCase_char (toLowerCase_char x) = toUpperCase_char x"
  by (simp add: toUpperCase_char_def toLowerCase_char_def lower_letters_def upper_letters_def)

lemma same_ignoring_case_upper:
  assumes "same_ignoring_case s c" "set c \<subseteq> set chars"
  shows "toUpperCase s = c"
proof -
  have "toUpperCase s = map toUpperCase_char (map toLowerCase_char s)"
    by (simp add: toUpperCase_def upper_lower)
  also have "\<dots> = map toUpperCase_char (map toLowerCase_char c)"
    using assms(1) by (simp add: same_ignoring_case_def)
  also have "\<dots> = toUpperCase c"
    by (simp add: toUpperCase_def upper_lower)
  finally show ?thesis using toUpperCase_fix [OF assms(2)] by simp
qed

subsection \<open>Parsing and writing\<close>

lemma floor_log2_eq:
  assumes "2 ^ n \<le> a" "a < 2 ^ (n + 1)"
  shows "\<lfloor>log 2 a\<rfloor> = int n"
proof -
  have a: "0 < a" using assms(1) by (smt (verit) zero_less_power)
  have "real n \<le> log 2 a"
    using assms(1) a by (simp add: le_log_iff powr_realpow)
  moreover have "log 2 a < real n + 1"
    using assms(2) a by (simp add: log_less_iff powr_realpow powr_add)
  ultimately show ?thesis by linarith
qed



lemma to_double_42: "to_double 42 = Finite 42"
proof -
  have "\<lfloor>log 2 (42::real)\<rfloor> = int 5"
    by (rule floor_log2_eq) simp_all
  then show ?thesis
    by (simp add: to_double_def round_half_even_def Let_def powr_minus powr_numeral)
qed

lemma to_double_rounds_up: "to_double 9007199254740995 = Finite 9007199254740996"
proof -
  have "\<lfloor>log 2 (9007199254740995::real)\<rfloor> = int 53"
    by (rule floor_log2_eq) simp_all
  then show ?thesis
    by (simp add: to_double_def round_half_even_def Let_def powr_numeral)
qed

lemma to_double_negative: "to_double (- 42) = Finite (- 42)"
proof -
  have "\<lfloor>log 2 (42::real)\<rfloor> = int 5"
    by (rule floor_log2_eq) simp_all
  then show ?thesis
    by (simp add: to_double_def round_half_even_def Let_def powr_minus powr_numeral)
qed

lemma to_double_negative_overflow: "to_double (- (10 ^ 400)) = NegInf"
  by (simp add: to_double_def)









subsection \<open>Facts about the state\<close>

lemma prop_of_not_null: "prop_of data k = Some v \<Longrightarrow> data \<noteq> JNull"
  by (auto simp: prop_of_def)

lemma map_of_Some_key: "map_of rs c = Some r \<Longrightarrow> c \<in> fst ` set rs"
  by (metis domI dom_map_of_conv_image_fst)

lemma card_set_option: "card (set_option x) \<le> Suc 0"
  by (cases x) simp_all

lemma card_bound: "card (bound_primaries b c) \<le> 1 \<and> card (bound_secondaries b c) \<le> 1"
  by (simp add: bound_primaries_def bound_secondaries_def card_set_option split: option.splits)

subsection \<open>The concrete inputs evaluated\<close>

lemmas ex_defs = ex_rnd_def ex_rnd0_def ex_tk_def ex_register_def ex_reconnect_def ex_join_def
  ex_relay_def ex_room_def ex_broker_def ex_pc_session_def ex_mobile_session_def new_session_def
  new_broker_def prop_of_def

lemma code_AEJNSW: "generateRoomCode ex_rnd = ''AEJNSW''"
  by (simp add: ex_rnd_def generateRoomCode_def generateRoomCode_loop.simps
        draw_index_def charAt_def chars_def)

lemma code_AAAAAA: "generateRoomCode ex_rnd0 = ''AAAAAA''"
  by (simp add: ex_rnd0_def generateRoomCode_def generateRoomCode_loop.simps
        draw_index_def charAt_def chars_def)

lemma token_k3x9lq2f: "generateReconnectionToken ex_tk = ''k3x9lq2f''"
  by (simp add: ex_tk_def generateReconnectionToken_def)

lemma ex_orphaned_eval:
  "ex_orphaned = \<lparr>rooms = [(''AEJNSW'', ex_room\<lparr>cleanupTimeout := Some 0\<rparr>)],
                  reconnectionTokens = [(''k3x9lq2f'', ''AEJNSW'')],
                  readyState = (\<lambda>s. OPEN)(1 := CLOSED), timers = [(0, 3600000, ''AEJNSW'')],
                  nextTimer = 1, now = 0\<rparr>"
  by (simp add: ex_orphaned_def close_event_def on_close_def session_room_def setTimeout_def
        ex_pc_session_def ex_broker_def ex_room_def is_open_def Let_def)

lemma token_zzlq2g: "generateReconnectionToken ex_tk2 = ''zzlq2g''"
  by (simp add: ex_tk2_def generateReconnectionToken_def)

lemma register_eval:
  assumes "prop_of data ''type'' = Some (JStr ''register_pc'')"
    and "prop_of data ''reconnectionToken'' = None"
  shows "on_message rnd tk ws (Some data) (se, st)
       = (\<lparr>currentRoom = Some (generateRoomCode rnd), deviceType = Some Pc\<rparr>,
          st\<lparr>rooms := AList.update (generateRoomCode rnd)
                         (fresh_room ws (generateReconnectionToken tk) (now st)) (rooms st),
             reconnectionTokens := AList.update (generateReconnectionToken tk) (generateRoomCode rnd)
                         (reconnectionTokens st)\<rparr>,
          [Send ws (msg_registered (generateRoomCode rnd) (Some (JStr (generateReconnectionToken tk))) False)])"
  using assms prop_of_not_null [OF assms(1)]
  by (simp add: on_message_def on_message_with_def handle_data_def register_pc_def reclaim_room_def create_room_def Let_def)

lemma trace_register_eval:
  "trace_register = (ex_pc_session,
           \<lparr>rooms = [(''AEJNSW'', fresh_room 1 ''k3x9lq2f'' 0)],
            reconnectionTokens = [(''k3x9lq2f'', ''AEJNSW'')],
            readyState = (\<lambda>s. OPEN), timers = [], nextTimer = 0, now = 0\<rparr>,
           [Send 1 (msg_registered ''AEJNSW'' (Some (JStr ''k3x9lq2f'')) False)])"
  unfolding trace_register_def
  by (subst register_eval)
     (simp_all add: ex_register_def prop_of_def code_AEJNSW token_k3x9lq2f new_broker_def
        new_session_def ex_pc_session_def)

lemma trace_reclaim_eval:
  "trace_reclaim = (ex_pc_session,
           \<lparr>rooms = [(''AEJNSW'', fresh_room 2 ''k3x9lq2f'' 0)],
            reconnectionTokens = [(''k3x9lq2f'', ''AEJNSW'')],
            readyState = (\<lambda>s. OPEN)(1 := CLOSING), timers = [], nextTimer = 0, now = 0\<rparr>,
           [Close 1, Send 2 (msg_registered ''AEJNSW'' (Some (JStr ''k3x9lq2f'')) True)])"
  unfolding trace_reclaim_def trace_register_eval
  by (simp add: on_message_def on_message_with_def handle_data_def register_pc_def reclaim_room_def tokens_get_def
        ex_reconnect_def prop_of_def fresh_room_def is_open_def close_socket_def Let_def
        ex_pc_session_def)

lemma trace_close_old_eval:
  "trace_close_old = (\<lparr>rooms = [(''AEJNSW'', (fresh_room 2 ''k3x9lq2f'' 0)\<lparr>cleanupTimeout := Some 0\<rparr>)],
            reconnectionTokens = [(''k3x9lq2f'', ''AEJNSW'')],
            readyState = (\<lambda>s. OPEN)(1 := CLOSED), timers = [(0, 3600000, ''AEJNSW'')],
            nextTimer = 1, now = 0\<rparr>, [])"
  unfolding trace_close_old_def trace_register_eval trace_reclaim_eval
  by (simp add: close_event_def on_close_def session_room_def setTimeout_def ex_pc_session_def
        fresh_room_def Let_def)

lemma trace_close_new_eval:
  "trace_close_new = (\<lparr>rooms = [(''AEJNSW'', (fresh_room 2 ''k3x9lq2f'' 0)\<lparr>cleanupTimeout := Some 1\<rparr>)],
            reconnectionTokens = [(''k3x9lq2f'', ''AEJNSW'')],
            readyState = (\<lambda>s. OPEN)(1 := CLOSED, 2 := CLOSED),
            timers = [(0, 3600000, ''AEJNSW''), (1, 7140000, ''AEJNSW'')],
            nextTimer = 2, now = 3540000\<rparr>, [])"
  unfolding trace_close_new_def trace_close_old_eval trace_reclaim_eval
  by (simp add: close_event_def on_close_def session_room_def setTimeout_def ex_pc_session_def
        fresh_room_def advance_def Let_def)

lemma trace_cleanup_eval:
  "trace_cleanup = Some \<lparr>rooms = [], reconnectionTokens = [],
            readyState = (\<lambda>s. OPEN)(1 := CLOSED, 2 := CLOSED),
            timers = [(1, 7140000, ''AEJNSW'')],
            nextTimer = 2, now = 3600000\<rparr>"
  unfolding trace_cleanup_def trace_close_new_eval
  by (simp add: fire_timer_def cleanup_callback_def advance_def fresh_room_def Let_def)

lemma trace_register_again_eval:
  "rooms (fst (snd trace_register_again)) = [(''AEJNSW'', fresh_room 1 ''k3x9lq2f'' 0), (''AAAAAA'', fresh_room 1 ''zzlq2g'' 0)]"
  unfolding trace_register_again_def trace_register_eval
  by (subst register_eval)
     (simp_all add: ex_register_def prop_of_def code_AAAAAA token_zzlq2g)

lemma trace_reclaim_late_eval:
  "trace_reclaim_late = (ex_pc_session,
           \<lparr>rooms = [(''AEJNSW'', fresh_room 3 ''k3x9lq2f'' 0)],
            reconnectionTokens = [(''k3x9lq2f'', ''AEJNSW'')],
            readyState = (\<lambda>s. OPEN)(1 := CLOSED, 2 := CLOSED),
            timers = [(0, 3600000, ''AEJNSW'')],
            nextTimer = 2, now = 3540000\<rparr>,
           [Send 3 (msg_registered ''AEJNSW'' (Some (JStr ''k3x9lq2f'')) True)])"
  unfolding trace_reclaim_late_def trace_close_new_eval
  by (simp add: on_message_def on_message_with_def handle_data_def register_pc_def reclaim_room_def
        tokens_get_def ex_reconnect_def prop_of_def fresh_room_def is_open_def clearTimeout_def
        Let_def ex_pc_session_def)

lemma trace_cleanup_late_eval:
  "trace_cleanup_late = Some \<lparr>rooms = [], reconnectionTokens = [],
            readyState = (\<lambda>s. OPEN)(1 := CLOSED, 2 := CLOSED),
            timers = [], nextTimer = 2, now = 3600000\<rparr>"
  unfolding trace_cleanup_late_def trace_reclaim_late_eval
  by (simp add: fire_timer_def cleanup_callback_def advance_def fresh_room_def Let_def)

lemma trace_join_replace_eval:
  "trace_join_replace = (ex_mobile_session,
           \<lparr>rooms = [(''AEJNSW'', ex_room\<lparr>mobile := Some 3\<rparr>)],
            reconnectionTokens = [(''k3x9lq2f'', ''AEJNSW'')],
            readyState = (\<lambda>s. OPEN)(2 := CLOSING), timers = [], nextTimer = 0, now = 0\<rparr>,
           [Close 2, Send 3 msg_connected, Send 1 msg_mobile_connected])"
  by (simp add: trace_join_replace_def on_message_def on_message_with_def handle_data_def
        join_room_def ex_join_def prop_of_def ex_broker_def ex_room_def toUpperCase_def
        toUpperCase_char_def lower_letters_def upper_letters_def is_open_def close_socket_def
        ex_mobile_session_def Let_def)

lemma trace_replaced_close_eval:
  "trace_replaced_close = (\<lparr>rooms = [(''AEJNSW'', ex_room\<lparr>mobile := None\<rparr>)],
            reconnectionTokens = [(''k3x9lq2f'', ''AEJNSW'')],
            readyState = (\<lambda>s. OPEN)(2 := CLOSED), timers = [], nextTimer = 0, now = 0\<rparr>,
           [Send 1 msg_mobile_disconnected])"
  unfolding trace_replaced_close_def trace_join_replace_eval
  by (simp add: close_event_def on_close_def session_room_def ex_mobile_session_def ex_room_def
        is_open_def Let_def)

lemma relay_eval:
  assumes "prop_of data ''type'' = Some (JStr ''relay'')"
  shows "on_message_with up rnd tk ws (Some data) sst = relay ws data sst"
  using assms prop_of_not_null [OF assms]
  by (simp add: on_message_with_def handle_data_def)

subsection \<open>Reclaiming a room\<close>

text \<open>
  One run of the handler on a \<^verbatim>\<open>register_pc\<close> whose \<^verbatim>\<open>reconnectionToken\<close> is a key
  of the token map, with the code stored there equal to \<^verbatim>\<open>requestedRoomCode\<close> and a
  room under that code: the cleanup task whose handle the room holds is no longer pending,
  the previous primary is closed when it was open, the new socket is the room's primary,
  the room keeps its code, its token and its secondary, no room is added or removed, the
  token map is as before, and the answer is \<^verbatim>\<open>registered\<close> with that code, that token
  and \<^verbatim>\<open>isReconnection: true\<close>.
\<close>

lemma register_pc_reclaim_step:
  assumes "prop_of data ''type'' = Some (JStr ''register_pc'')"
    and "prop_of data ''reconnectionToken'' = Some (JStr t)" and "t \<noteq> []"
    and "prop_of data ''requestedRoomCode'' = Some (JStr c)" and "c \<noteq> []"
    and "map_of (reconnectionTokens st) t = Some c"
    and "map_of (rooms st) c = Some r"
  shows "case on_message_with up rnd tk ws (Some data) (se, st) of (se', st', out) \<Rightarrow>
           se' = \<lparr>currentRoom = Some c, deviceType = Some Pc\<rparr>
         \<and> map_of (rooms st') c = Some (r\<lparr>cleanupTimeout := None, pc := Some ws\<rparr>)
         \<and> map fst (rooms st') = map fst (rooms st)
         \<and> (\<forall>c'. c' \<noteq> c \<longrightarrow> map_of (rooms st') c' = map_of (rooms st) c')
         \<and> reconnectionTokens st' = reconnectionTokens st
         \<and> (\<forall>h. cleanupTimeout r = Some h \<longrightarrow> map_of (timers st') h = None)
         \<and> (\<forall>h. cleanupTimeout r \<noteq> Some h \<longrightarrow> map_of (timers st') h = map_of (timers st) h)
         \<and> out = (case pc r of
                     None \<Rightarrow> []
                   | Some p \<Rightarrow> if readyState st p = OPEN then [Close p] else [])
                  @ [Send ws (DObj [(''type'', DStr ''registered''),
                                    (''roomCode'', DStr c),
                                    (''reconnectionToken'', DStr t),
                                    (''isReconnection'', DBool True),
                                    (''message'', DStr (''PC registered with code: '' @ c))])]
         \<and> (\<forall>p. pc r = Some p \<and> readyState st p = OPEN \<longrightarrow> readyState st' p = CLOSING)"
  using assms prop_of_not_null [OF assms(1)] map_of_Some_key [OF assms(7)]
  by (auto simp: on_message_with_def handle_data_def register_pc_def reclaim_room_def tokens_get_def
        Let_def update_conv' is_open_def close_socket_def clearTimeout_def delete_conv'
        update_keys msg_registered_def
        split: option.splits)

text \<open>
  C1. The claim that a registration with a token that resolves to a live room of the
  claimed code reclaims the room with its pending cleanup cancelled does not hold in the
  run that ends with \<^const>\<open>trace_cleanup_late\<close>. When socket 3 registers with the token \<open>k3x9lq2f\<close> and the code
  \<open>AEJNSW\<close>, the token resolves to the live room \<open>AEJNSW\<close>; the answer is
  \<^verbatim>\<open>registered\<close> with \<^verbatim>\<open>isReconnection: true\<close>, socket 3 is the room's primary and
  the task whose handle the room holds (1) is cancelled; but the task that the close event
  of the replaced socket 1 scheduled (0) is still pending, and 60 seconds later it deletes
  the reclaimed room and its token.
\<close>

theorem stale_cleanup_survives_reclaim:
  "map_of (reconnectionTokens (fst trace_close_new)) ''k3x9lq2f'' = Some ''AEJNSW''
   \<and> map_option cleanupTimeout (map_of (rooms (fst trace_close_new)) ''AEJNSW'') = Some (Some 1)
   \<and> map_of (timers (fst trace_close_new)) 0 = Some (3600000, ''AEJNSW'')
   \<and> map_of (timers (fst trace_close_new)) 1 = Some (7140000, ''AEJNSW'')
   \<and> snd (snd trace_reclaim_late)
       = [Send 3 (DObj [(''type'', DStr ''registered''),
                        (''roomCode'', DStr ''AEJNSW''),
                        (''reconnectionToken'', DStr ''k3x9lq2f''),
                        (''isReconnection'', DBool True),
                        (''message'', DStr ''PC registered with code: AEJNSW'')])]
   \<and> bound_primaries (fst (snd trace_reclaim_late)) ''AEJNSW'' = {3}
   \<and> readyState (fst (snd trace_reclaim_late)) 3 = OPEN
   \<and> map_option cleanupTimeout (map_of (rooms (fst (snd trace_reclaim_late))) ''AEJNSW'') = Some None
   \<and> map_of (timers (fst (snd trace_reclaim_late))) 1 = None
   \<and> map_of (timers (fst (snd trace_reclaim_late))) 0 = Some (3600000, ''AEJNSW'')
   \<and> now (advance 60000 (fst (snd trace_reclaim_late))) = 3600000
   \<and> map_option rooms trace_cleanup_late = Some []
   \<and> map_option reconnectionTokens trace_cleanup_late = Some []"
  by (simp add: trace_close_new_eval trace_reclaim_late_eval trace_cleanup_late_eval
        bound_primaries_def fresh_room_def advance_def msg_registered_def)

subsection \<open>Fresh registration\<close>

text \<open>
  C7 (as amended). A \<^verbatim>\<open>register_pc\<close> without a reconnection token makes a room with the
  registering socket as primary under the code \<^const>\<open>generateRoomCode\<close> returns, with a new
  token, and answers \<^verbatim>\<open>registered\<close> with \<^verbatim>\<open>isReconnection: false\<close>. The code is
  not compared with the codes of the live rooms and is not generated again: every room under
  another code stays as it is, so when no live room has the generated code no live room is
  touched; a live room that has it is replaced.
\<close>

theorem register_pc_creates_room:
  assumes "prop_of data ''type'' = Some (JStr ''register_pc'')"
    and "prop_of data ''reconnectionToken'' = None"
  shows "case on_message rnd tk ws (Some data) (se, st) of (se', st', out) \<Rightarrow>
           se' = \<lparr>currentRoom = Some (generateRoomCode rnd), deviceType = Some Pc\<rparr>
         \<and> rooms st' = AList.update (generateRoomCode rnd)
                          (fresh_room ws (generateReconnectionToken tk) (now st)) (rooms st)
         \<and> map_of (rooms st') (generateRoomCode rnd)
             = Some (fresh_room ws (generateReconnectionToken tk) (now st))
         \<and> (\<forall>c. c \<noteq> generateRoomCode rnd \<longrightarrow> map_of (rooms st') c = map_of (rooms st) c)
         \<and> (map_of (rooms st) (generateRoomCode rnd) = None
              \<longrightarrow> (\<forall>c r. map_of (rooms st) c = Some r \<longrightarrow> map_of (rooms st') c = Some r))
         \<and> out = [Send ws (msg_registered (generateRoomCode rnd)
                             (Some (JStr (generateReconnectionToken tk))) False)]"
  unfolding register_eval [OF assms]
  by (auto simp: update_conv')

theorem register_pc_creates_room_witness:
  "prop_of ex_register ''type'' = Some (JStr ''register_pc'')
   \<and> prop_of ex_register ''reconnectionToken'' = None
   \<and> map_of (rooms ex_broker) (generateRoomCode ex_rnd0) = None
   \<and> (case on_message ex_rnd0 ex_tk2 3 (Some ex_register) (new_session, ex_broker) of (se', st', out) \<Rightarrow>
        rooms st' = [(''AEJNSW'', ex_room), (''AAAAAA'', fresh_room 3 ''zzlq2g'' 0)]
        \<and> out = [Send 3 (msg_registered ''AAAAAA'' (Some (JStr ''zzlq2g'')) False)])"
proof -
  have h: "prop_of ex_register ''type'' = Some (JStr ''register_pc'')"
    "prop_of ex_register ''reconnectionToken'' = None"
    by (simp_all add: ex_register_def prop_of_def)
  show ?thesis
    using register_pc_creates_room [OF h, where rnd = ex_rnd0 and tk = ex_tk2 and ws = 3
        and se = new_session and st = ex_broker] h
    by (auto simp: code_AAAAAA token_zzlq2g ex_broker_def split: prod.splits)
qed

text \<open>
  C7 as stated fails: socket 3 registers while the room \<open>AEJNSW\<close> of sockets 1 and 2 is
  live, the generator returns \<open>AEJNSW\<close> again, and the live room is overwritten by a room
  with socket 3 as primary and no secondary.
\<close>

theorem register_pc_collision_counterexample:
  "map_of (rooms ex_broker) ''AEJNSW'' = Some ex_room
   \<and> pc ex_room = Some 1 \<and> mobile ex_room = Some 2
   \<and> rooms (fst (snd (on_message ex_rnd ex_tk2 3 (Some ex_register) (new_session, ex_broker))))
       = [(''AEJNSW'', fresh_room 3 ''zzlq2g'' 0)]
   \<and> pc (fresh_room 3 ''zzlq2g'' 0) = Some 3 \<and> mobile (fresh_room 3 ''zzlq2g'' 0) = None"
  by (subst register_eval)
     (simp_all add: ex_register_def prop_of_def code_AEJNSW token_zzlq2g ex_broker_def ex_room_def
        fresh_room_def)

subsection \<open>Joining\<close>

text \<open>
  One run of the handler on a \<^verbatim>\<open>join_room\<close> for a room that exists: the joining socket
  is the room's secondary when the handler returns, the secondary bound before is closed
  when it was open, and the primary and the other rooms are as before. A room has one slot
  for each role.
\<close>

lemma join_room_binds_joiner:
  assumes "prop_of data ''type'' = Some (JStr ''join_room'')"
    and "prop_of data ''roomCode'' = Some (JStr s)"
    and "map_of (rooms st) (up s) = Some r"
  shows "case on_message_with up rnd tk ws (Some data) (se, st) of (se', st', out) \<Rightarrow>
           se' = \<lparr>currentRoom = Some (up s), deviceType = Some Mobile\<rparr>
         \<and> map_of (rooms st') (up s) = Some (r\<lparr>mobile := Some ws\<rparr>)
         \<and> bound_secondaries st' (up s) = {ws}
         \<and> bound_primaries st' (up s) = bound_primaries st (up s)
         \<and> (\<forall>m. mobile r = Some m \<and> readyState st m = OPEN
                \<longrightarrow> Close m \<in> set out \<and> readyState st' m = CLOSING)
         \<and> (\<forall>c. c \<noteq> up s \<longrightarrow> map_of (rooms st') c = map_of (rooms st) c)"
  using assms prop_of_not_null [OF assms(1)]
  by (auto simp: on_message_with_def handle_data_def join_room_def Let_def update_conv'
        bound_secondaries_def bound_primaries_def is_open_def close_socket_def
        split: option.splits)

text \<open>
  C3. The claim that the socket that joins last is the room's secondary, with the replaced
  one gone, does not hold in the following run. Socket 3 joins the room \<open>AEJNSW\<close> whose
  primary is socket 1 and whose secondary is socket 2: socket 2 is closed and socket 3 is in the slot. Until the close
  event of socket 2 arrives, a \<^verbatim>\<open>relay\<close> frame of socket 2 is still delivered to the
  primary, as one of socket 3 is: both act as the secondary. The close event of socket 2
  then runs \<^verbatim>\<open>room.mobile = null\<close> without looking at the slot: the slot, which
  holds socket 3, is emptied, and a \<^verbatim>\<open>relay\<close> frame of the primary is dropped although
  socket 3 joined last and is open.
\<close>

theorem replaced_secondary_close_unbinds_last_joiner:
  "bound_secondaries ex_broker ''AEJNSW'' = {2}
   \<and> bound_secondaries (fst (snd trace_join_replace)) ''AEJNSW'' = {3}
   \<and> Close 2 \<in> set (snd (snd trace_join_replace))
   \<and> snd (snd (on_message ex_rnd ex_tk 2 (Some (ex_relay (JStr ''X'')))
                  (ex_mobile_session, fst (snd trace_join_replace))))
       = [Send 1 (DObj [(''type'', DStr ''data''), (''payload'', DStr ''X'')])]
   \<and> snd (snd (on_message ex_rnd ex_tk 3 (Some (ex_relay (JStr ''Y'')))
                  (fst trace_join_replace, fst (snd trace_join_replace))))
       = [Send 1 (DObj [(''type'', DStr ''data''), (''payload'', DStr ''Y'')])]
   \<and> bound_secondaries (fst trace_replaced_close) ''AEJNSW'' = {}
   \<and> readyState (fst trace_replaced_close) 3 = OPEN
   \<and> snd (snd (on_message ex_rnd ex_tk 1 (Some (ex_relay (JStr ''Z'')))
                  (ex_pc_session, fst trace_replaced_close)))
       = []"
  by (simp add: trace_join_replace_eval trace_replaced_close_eval bound_secondaries_def
        ex_broker_def ex_room_def on_message_def relay_eval relay_def ex_relay_def prop_of_def
        ex_mobile_session_def ex_pc_session_def session_room_def is_open_def msg_data_def)

text \<open>
  C5. A \<^verbatim>\<open>join_room\<close> whose code, upper-cased as the handler looks it up, is the code of
  no room answers the joining socket with the error \<open>Invalid room code\<close> and does nothing
  else: no other socket is sent anything, no room is made, and the session and the whole
  state of the broker are as before. This holds whatever the upper-casing function is.
\<close>

theorem join_room_not_found:
  assumes "prop_of data ''type'' = Some (JStr ''join_room'')"
    and "prop_of data ''roomCode'' = Some (JStr s)"
    and "map_of (rooms st) (up s) = None"
  shows "on_message_with up rnd tk ws (Some data) (se, st)
         = (se, st, [Send ws (DObj [(''type'', DStr ''error''),
                                    (''message'', DStr ''Invalid room code'')])])"
  using assms prop_of_not_null [OF assms(1)]
  by (simp add: on_message_with_def handle_data_def join_room_def msg_error_def)

theorem join_room_not_found_witness:
  "prop_of (ex_join ''zzzzzz'') ''type'' = Some (JStr ''join_room'')
   \<and> prop_of (ex_join ''zzzzzz'') ''roomCode'' = Some (JStr ''zzzzzz'')
   \<and> map_of (rooms ex_broker) (toUpperCase ''zzzzzz'') = None
   \<and> on_message_with toUpperCase ex_rnd ex_tk 3 (Some (ex_join ''zzzzzz'')) (new_session, ex_broker)
       = (new_session, ex_broker,
          [Send 3 (DObj [(''type'', DStr ''error''), (''message'', DStr ''Invalid room code'')])])
   \<and> map_of (rooms ex_broker) (id ''zzzzzz'') = None
   \<and> on_message_with id ex_rnd ex_tk 3 (Some (ex_join ''zzzzzz'')) (new_session, ex_broker)
       = (new_session, ex_broker,
          [Send 3 (DObj [(''type'', DStr ''error''), (''message'', DStr ''Invalid room code'')])])"
  using join_room_not_found [of "ex_join ''zzzzzz''" "''zzzzzz''" ex_broker toUpperCase ex_rnd ex_tk 3 new_session]
    join_room_not_found [of "ex_join ''zzzzzz''" "''zzzzzz''" ex_broker id ex_rnd ex_tk 3 new_session]
  by (simp add: ex_defs toUpperCase_def toUpperCase_char_def lower_letters_def upper_letters_def)

text \<open>
  With an upper-casing function that takes the long s to \<open>S\<close>, a join with such a code
  finds the room \<open>AEJNSW\<close>, replaces its secondary and is not answered with an error.
\<close>

lemma join_room_long_s:
  "map_of (rooms ex_broker) (ex_up ex_long_s_code) = Some ex_room
   \<and> on_message_with ex_up ex_rnd ex_tk 3 (Some (ex_join ex_long_s_code)) (new_session, ex_broker)
       = (ex_mobile_session,
          ex_broker\<lparr>rooms := [(''AEJNSW'', ex_room\<lparr>mobile := Some 3\<rparr>)],
                     readyState := (readyState ex_broker)(2 := CLOSING)\<rparr>,
          [Close 2, Send 3 msg_connected, Send 1 msg_mobile_connected])"
  by (simp add: on_message_with_def handle_data_def join_room_def ex_join_def prop_of_def
        ex_broker_def ex_room_def ex_up_def is_open_def close_socket_def ex_mobile_session_def
        Let_def)

lemma join_room_found:
  assumes "prop_of data ''type'' = Some (JStr ''join_room'')"
    and "prop_of data ''roomCode'' = Some (JStr s)"
    and "map_of (rooms st) (toUpperCase s) = Some r"
  shows "case on_message rnd tk ws (Some data) (se, st) of (se', st', out) \<Rightarrow>
           se' = \<lparr>currentRoom = Some (toUpperCase s), deviceType = Some Mobile\<rparr>
         \<and> map_of (rooms st') (toUpperCase s) = Some (r\<lparr>mobile := Some ws\<rparr>)
         \<and> Send ws msg_connected \<in> set out
         \<and> (\<forall>m. Send ws (msg_error m) \<notin> set out)"
  using assms prop_of_not_null [OF assms(1)]
  by (auto simp: on_message_def on_message_with_def handle_data_def join_room_def Let_def update_conv'
        is_open_def close_socket_def msg_error_def msg_connected_def msg_mobile_connected_def
        split: option.splits)

text \<open>
  C10. Joining does not depend on the case of the letters of the code: for a room whose
  code \<^const>\<open>generateRoomCode\<close> has made, a \<^verbatim>\<open>join_room\<close> whose \<^verbatim>\<open>roomCode\<close>
  differs from that code in the case of letters only succeeds, since the handler looks the
  upper-cased string up and upper-casing gives the room's code back.
\<close>

theorem join_room_case_insensitive:
  assumes "prop_of data ''type'' = Some (JStr ''join_room'')"
    and "prop_of data ''roomCode'' = Some (JStr s)"
    and "valid_draws rnd0" and "c = generateRoomCode rnd0"
    and "map_of (rooms st) c = Some r"
    and "same_ignoring_case s c"
  shows "toUpperCase s = c \<and>
         (case on_message rnd tk ws (Some data) (se, st) of (se', st', out) \<Rightarrow>
            se' = \<lparr>currentRoom = Some c, deviceType = Some Mobile\<rparr>
          \<and> map_of (rooms st') c = Some (r\<lparr>mobile := Some ws\<rparr>)
          \<and> Send ws msg_connected \<in> set out
          \<and> (\<forall>m. Send ws (msg_error m) \<notin> set out))"
proof -
  have "set c \<subseteq> set chars"
    using generateRoomCode_shape [OF assms(3)] assms(4) by simp
  then have u: "toUpperCase s = c"
    using same_ignoring_case_upper assms(6) by blast
  with assms(5) have "map_of (rooms st) (toUpperCase s) = Some r" by simp
  from join_room_found [OF assms(1,2) this, where rnd = rnd and tk = tk and ws = ws and se = se] u
  show ?thesis by simp
qed

theorem join_room_case_insensitive_witness:
  "prop_of (ex_join ''aeJnsw'') ''type'' = Some (JStr ''join_room'')
   \<and> prop_of (ex_join ''aeJnsw'') ''roomCode'' = Some (JStr ''aeJnsw'')
   \<and> valid_draws ex_rnd \<and> ''AEJNSW'' = generateRoomCode ex_rnd
   \<and> map_of (rooms ex_broker) ''AEJNSW'' = Some ex_room
   \<and> same_ignoring_case ''aeJnsw'' ''AEJNSW''
   \<and> toUpperCase ''aeJnsw'' = ''AEJNSW''
   \<and> (case on_message ex_rnd ex_tk 3 (Some (ex_join ''aeJnsw'')) (new_session, ex_broker) of
        (se', st', out) \<Rightarrow>
          se' = ex_mobile_session
          \<and> map_of (rooms st') ''AEJNSW'' = Some (ex_room\<lparr>mobile := Some 3\<rparr>)
          \<and> Send 3 msg_connected \<in> set out)"
proof -
  have h: "prop_of (ex_join ''aeJnsw'') ''type'' = Some (JStr ''join_room'')"
      "prop_of (ex_join ''aeJnsw'') ''roomCode'' = Some (JStr ''aeJnsw'')"
      "valid_draws ex_rnd" "''AEJNSW'' = generateRoomCode ex_rnd"
      "map_of (rooms ex_broker) ''AEJNSW'' = Some ex_room"
      "same_ignoring_case ''aeJnsw'' ''AEJNSW''"
    by (simp_all add: code_AEJNSW ex_join_def ex_broker_def prop_of_def valid_draws_def ex_rnd_def
          same_ignoring_case_def toLowerCase_char_def lower_letters_def upper_letters_def)
  show ?thesis
    using join_room_case_insensitive [OF h, where rnd = ex_rnd and tk = ex_tk and ws = 3 and se = new_session] h
    by (auto simp: ex_mobile_session_def split: prod.splits)
qed

subsection \<open>Relaying\<close>




subsection \<open>Malformed frames\<close>

text \<open>
  C8 (as amended). No malformed frame changes the session or any state of the broker, closes
  a socket, or has anything sent to a socket other than the sender. The sender is answered
  with the error \<open>Invalid message format\<close> when the frame is not JSON, is \<^verbatim>\<open>null\<close>,
  or is a \<^verbatim>\<open>join_room\<close> without a string \<^verbatim>\<open>roomCode\<close>; every other malformed
  frame (a number, a string, an array, an object without a \<^verbatim>\<open>type\<close> that the handler
  knows) is ignored without any answer.
\<close>

theorem malformed_frame_handling:
  assumes "malformed message"
  shows "on_message_with up rnd tk ws message (se, st)
         = (se, st,
            if unreadable message
            then [Send ws (DObj [(''type'', DStr ''error''),
                                 (''message'', DStr ''Invalid message format'')])]
            else [])"
proof (cases message)
  case None
  then show ?thesis by (simp add: on_message_with_def unreadable_def msg_error_def)
next
  case (Some data)
  show ?thesis
  proof (cases "data = JNull")
    case True
    with Some show ?thesis
      by (simp add: on_message_with_def handle_data_def unreadable_def msg_error_def)
  next
    case False
    from assms Some have e: "\<not> envelope data" by (simp add: malformed_def)
    show ?thesis
    proof (cases "prop_of data ''type'' = Some (JStr ''join_room'')")
      case True
      with e have n: "\<not> is_string (prop_of data ''roomCode'')" by (simp add: envelope_def)
      then have "join_room up ws data (se, st) = Inl TypeError"
        by (auto simp: join_room_def is_string_def split: option.splits json.splits)
      with Some False True n show ?thesis
        by (simp add: on_message_with_def handle_data_def unreadable_def msg_error_def)
    next
      case j: False
      from e have "prop_of data ''type'' \<noteq> Some (JStr ''register_pc'')"
        "prop_of data ''type'' \<noteq> Some (JStr ''relay'')"
        by (simp_all add: envelope_def)
      with Some False j show ?thesis
        by (simp add: on_message_with_def handle_data_def unreadable_def)
    qed
  qed
qed

theorem malformed_frame_handling_witness:
  "malformed None \<and> unreadable None
   \<and> on_message_with toUpperCase ex_rnd ex_tk 3 None (new_session, ex_broker)
       = (new_session, ex_broker,
          [Send 3 (DObj [(''type'', DStr ''error''), (''message'', DStr ''Invalid message format'')])])
   \<and> malformed (Some (JObj [(''type'', JStr ''join_room'')]))
   \<and> unreadable (Some (JObj [(''type'', JStr ''join_room'')]))
   \<and> on_message_with toUpperCase ex_rnd ex_tk 3 (Some (JObj [(''type'', JStr ''join_room'')])) (new_session, ex_broker)
       = (new_session, ex_broker,
          [Send 3 (DObj [(''type'', DStr ''error''), (''message'', DStr ''Invalid message format'')])])
   \<and> malformed (Some (JObj [(''type'', JStr ''ping'')]))
   \<and> \<not> unreadable (Some (JObj [(''type'', JStr ''ping'')]))
   \<and> on_message_with toUpperCase ex_rnd ex_tk 3 (Some (JObj [(''type'', JStr ''ping'')])) (new_session, ex_broker)
       = (new_session, ex_broker, [])"
  using malformed_frame_handling [of None toUpperCase ex_rnd ex_tk 3 new_session ex_broker]
    malformed_frame_handling [of "Some (JObj [(''type'', JStr ''join_room'')])" toUpperCase ex_rnd ex_tk 3 new_session ex_broker]
    malformed_frame_handling [of "Some (JObj [(''type'', JStr ''ping'')])" toUpperCase ex_rnd ex_tk 3 new_session ex_broker]
  by (simp add: malformed_def unreadable_def envelope_def prop_of_def is_string_def)

text \<open>
  C8 as stated fails: the frames \<open>42\<close> and \<open>{}\<close> are malformed, and the broker sends
  no error for them, to the sender or to anyone.
\<close>

theorem malformed_frame_ignored_counterexample:
  "malformed (Some (JNum (Finite 42)))
   \<and> on_message ex_rnd ex_tk 3 (Some (JNum (Finite 42))) (new_session, ex_broker)
       = (new_session, ex_broker, [])
   \<and> JSON_parse (DNum 42) = JNum (Finite 42)
   \<and> malformed (Some (JObj []))
   \<and> on_message ex_rnd ex_tk 3 (Some (JObj [])) (new_session, ex_broker)
       = (new_session, ex_broker, [])
   \<and> JSON_parse (DObj []) = JObj []"
  by (simp add: malformed_def envelope_def prop_of_def on_message_def on_message_with_def
        handle_data_def to_double_42 create_properties_def)

text \<open>A frame with a \<^verbatim>\<open>type\<close> the handler does not know is ignored without an answer.\<close>

lemma unknown_type_ignored:
  assumes "data \<noteq> JNull"
    and "prop_of data ''type'' \<noteq> Some (JStr ''register_pc'')"
    and "prop_of data ''type'' \<noteq> Some (JStr ''join_room'')"
    and "prop_of data ''type'' \<noteq> Some (JStr ''relay'')"
  shows "on_message_with up rnd tk ws (Some data) (se, st) = (se, st, [])"
  using assms by (simp add: on_message_with_def handle_data_def)

text \<open>The unreadable frames are all the frames on which the \<^verbatim>\<open>try\<close> block throws.\<close>

lemma unreadable_iff_throws:
  "unreadable message
   \<longleftrightarrow> (case message of None \<Rightarrow> True | Some data \<Rightarrow> isl (handle_data up rnd tk ws data sst))"
  by (auto simp: unreadable_def handle_data_def join_room_def is_string_def Let_def
        split: option.splits json.splits prod.splits)

subsection \<open>Exclusive ownership of sockets\<close>

lemma set_update_subset: "set (AList.update k v al) \<subseteq> insert (k, v) (set al)"
  by (induction al) auto

lemma set_delete_subset: "set (AList.delete k al) \<subseteq> set al"
  by (auto simp: AList.delete_eq)

lemma exclusiveD:
  "exclusive rs \<Longrightarrow> (c1, r1) \<in> set rs \<Longrightarrow> (c2, r2) \<in> set rs \<Longrightarrow> c1 \<noteq> c2
     \<Longrightarrow> set (slots r1) \<inter> set (slots r2) = {}"
  unfolding exclusive_def by (drule (1) bspec, drule (1) bspec, simp)

lemma exclusiveI:
  assumes "\<And>c1 r1 c2 r2. (c1, r1) \<in> set rs \<Longrightarrow> (c2, r2) \<in> set rs \<Longrightarrow> c1 \<noteq> c2
      \<Longrightarrow> set (slots r1) \<inter> set (slots r2) = {}"
  shows "exclusive rs"
  unfolding exclusive_def
proof (intro ballI impI)
  fix x y assume "x \<in> set rs" "y \<in> set rs" "fst x \<noteq> fst y"
  with assms [of "fst x" "snd x" "fst y" "snd y"]
  show "set (slots (snd x)) \<inter> set (slots (snd y)) = {}" by simp
qed

lemma old_slots_disjoint:
  assumes "exclusive rs" "(c2, r2) \<in> set rs" "c2 \<noteq> c"
  shows "old_slots rs c \<inter> set (slots r2) = {}"
proof (cases "map_of rs c")
  case None
  then show ?thesis by (simp add: old_slots_def)
next
  case (Some r)
  then have "(c, r) \<in> set rs" by (rule map_of_SomeD)
  from exclusiveD [OF assms(1) this assms(2)] assms(3)
  have "set (slots r) \<inter> set (slots r2) = {}" by simp
  with Some show ?thesis by (simp add: old_slots_def)
qed

lemma exclusive_update_core:
  assumes ex: "exclusive rs"
    and other: "\<And>c2 r2. (c2, r2) \<in> set rs \<Longrightarrow> c2 \<noteq> c \<Longrightarrow> set (slots v) \<inter> set (slots r2) = {}"
  shows "exclusive (AList.update c v rs)"
proof (rule exclusiveI)
  fix c1 r1 c2 r2
  assume a: "(c1, r1) \<in> set (AList.update c v rs)" "(c2, r2) \<in> set (AList.update c v rs)" "c1 \<noteq> c2"
  from a(1) set_update_subset [of c v rs] have m1: "(c1, r1) = (c, v) \<or> (c1, r1) \<in> set rs" by blast
  from a(2) set_update_subset [of c v rs] have m2: "(c2, r2) = (c, v) \<or> (c2, r2) \<in> set rs" by blast
  show "set (slots r1) \<inter> set (slots r2) = {}"
  proof (cases "(c1, r1) = (c, v)")
    case True
    with a(3) m2 have "(c2, r2) \<in> set rs" "c2 \<noteq> c" by auto
    from other [OF this] True show ?thesis by simp
  next
    case n1: False
    with m1 have i1: "(c1, r1) \<in> set rs" by blast
    show ?thesis
    proof (cases "(c2, r2) = (c, v)")
      case True
      with a(3) have "c1 \<noteq> c" by auto
      from other [OF i1 this] True show ?thesis by auto
    next
      case False
      with m2 have "(c2, r2) \<in> set rs" by blast
      from exclusiveD [OF ex i1 this a(3)] show ?thesis .
    qed
  qed
qed

lemma exclusive_update:
  assumes ex: "exclusive rs"
    and sl: "set (slots v) \<subseteq> insert ws (old_slots rs c)"
    and only: "referenced_only_in ws (Some c) rs"
  shows "exclusive (AList.update c v rs)"
proof (rule exclusive_update_core [OF ex])
  fix c2 r2
  assume m: "(c2, r2) \<in> set rs" "c2 \<noteq> c"
  from only m have "ws \<notin> set (slots r2)"
    unfolding referenced_only_in_def by (auto dest!: bspec [where x = "(c2, r2)"])
  with sl old_slots_disjoint [OF ex m] show "set (slots v) \<inter> set (slots r2) = {}"
    by blast
qed

lemma exclusive_shrink:
  assumes ex: "exclusive rs" and sl: "set (slots v) \<subseteq> old_slots rs c"
  shows "exclusive (AList.update c v rs)"
proof (rule exclusive_update_core [OF ex])
  fix c2 r2
  assume m: "(c2, r2) \<in> set rs" "c2 \<noteq> c"
  with sl old_slots_disjoint [OF ex m] show "set (slots v) \<inter> set (slots r2) = {}"
    by blast
qed

lemma exclusive_delete:
  assumes "exclusive rs"
  shows "exclusive (AList.delete c rs)"
proof (rule exclusiveI)
  fix c1 r1 c2 r2
  assume a: "(c1, r1) \<in> set (AList.delete c rs)" "(c2, r2) \<in> set (AList.delete c rs)" "c1 \<noteq> c2"
  from a(1,2) set_delete_subset [of c rs] have "(c1, r1) \<in> set rs" "(c2, r2) \<in> set rs" by blast+
  from exclusiveD [OF assms this a(3)] show "set (slots r1) \<inter> set (slots r2) = {}" .
qed

lemma room_stepI:
  "set (slots v) \<subseteq> insert ws (old_slots rs c) \<Longrightarrow> room_step ws c rs (AList.update c v rs)"
  unfolding room_step_def by blast

lemma reclaim_room_rooms:
  assumes "reclaim_room ws data st = ((rc, tok, isr), st1, out1)"
  shows "(rc = None \<and> st1 = st)
       \<or> (\<exists>c. rc = Some c \<and> c \<noteq> [] \<and> room_step ws c (rooms st) (rooms st1))"
proof (cases "rc")
  case None
  with assms show ?thesis
    by (auto simp: reclaim_room_def Let_def split: option.splits if_splits)
next
  case (Some c)
  with assms obtain r where r: "map_of (rooms st) c = Some r"
      and c: "prop_of data ''requestedRoomCode'' = Some (JStr c)"
      and t: "truthy (prop_of data ''requestedRoomCode'')"
      and u: "rooms st1 = AList.update c (r\<lparr>cleanupTimeout := None, pc := Some ws\<rparr>) (rooms st)"
    by (auto simp: reclaim_room_def Let_def clearTimeout_def close_socket_def
          split: option.splits if_splits)
  from c t have "c \<noteq> []" by simp
  moreover have "room_step ws c (rooms st) (rooms st1)"
    unfolding u by (rule room_stepI) (auto simp: slots_def old_slots_def r split: option.splits)
  ultimately show ?thesis using Some by blast
qed

lemma create_room_rooms:
  assumes "create_room rnd tk ws st = (c, tok, st')"
  shows "room_step ws c (rooms st) (rooms st')"
proof -
  from assms have c: "c = generateRoomCode rnd"
    and u: "rooms st' = AList.update c (fresh_room ws (generateReconnectionToken tk) (now st)) (rooms st)"
    by (auto simp: create_room_def Let_def)
  show ?thesis
    unfolding u by (rule room_stepI) (simp add: slots_def fresh_room_def)
qed

lemma register_pc_rooms:
  assumes "register_pc rnd tk ws data (se, st) = (se', st', out)"
  shows "\<exists>c. currentRoom se' = Some c \<and> room_step ws c (rooms st) (rooms st')"
proof -
  obtain rc tok isr st1 out1 where rr: "reclaim_room ws data st = ((rc, tok, isr), st1, out1)"
    by (metis prod_cases3)
  from reclaim_room_rooms [OF rr] show ?thesis
  proof
    assume n: "rc = None \<and> st1 = st"
    obtain c tk' st2 where cr: "create_room rnd tk ws st = (c, tk', st2)" by (metis prod_cases3)
    with assms rr n have "se' = \<lparr>currentRoom = Some c, deviceType = Some Pc\<rparr>" "st' = st2"
      by (auto simp: register_pc_def)
    with create_room_rooms [OF cr] show ?thesis by auto
  next
    assume "\<exists>c. rc = Some c \<and> c \<noteq> [] \<and> room_step ws c (rooms st) (rooms st1)"
    then obtain c where c: "rc = Some c" "c \<noteq> []" "room_step ws c (rooms st) (rooms st1)" by blast
    with assms rr have "se' = \<lparr>currentRoom = Some c, deviceType = Some Pc\<rparr>" "st' = st1"
      by (auto simp: register_pc_def)
    with c(3) show ?thesis by auto
  qed
qed

lemma join_room_rooms:
  assumes "join_room up ws data (se, st) = Inr (se', st', out)"
  shows "rooms st' = rooms st
       \<or> (\<exists>c. currentRoom se' = Some c \<and> room_step ws c (rooms st) (rooms st'))"
proof -
  from assms obtain s where s: "prop_of data ''roomCode'' = Some (JStr s)"
    by (auto simp: join_room_def split: option.splits json.splits)
  show ?thesis
  proof (cases "map_of (rooms st) (up s)")
    case None
    with assms s show ?thesis by (simp add: join_room_def)
  next
    case (Some r)
    with assms s have se: "currentRoom se' = Some (up s)"
      and u: "rooms st' = AList.update (up s) (r\<lparr>mobile := Some ws\<rparr>) (rooms st)"
      by (auto simp: join_room_def Let_def close_socket_def split: option.splits)
    have "room_step ws (up s) (rooms st) (rooms st')"
      unfolding u by (rule room_stepI) (auto simp: slots_def old_slots_def Some split: option.splits)
    with se show ?thesis by blast
  qed
qed

lemma relay_rooms: "relay ws data (se, st) = (se', st', out) \<Longrightarrow> st' = st"
  by (auto simp: relay_def split: option.splits if_splits)

lemma on_message_rooms:
  assumes "on_message_with up rnd tk ws message (se, st) = (se', st', out)"
  shows "rooms st' = rooms st
       \<or> (\<exists>c. currentRoom se' = Some c \<and> room_step ws c (rooms st) (rooms st'))"
proof (cases "case message of None \<Rightarrow> Inl SyntaxError | Some data \<Rightarrow> handle_data up rnd tk ws data (se, st)")
  case (Inl e)
  with assms show ?thesis by (simp add: on_message_with_def)
next
  case (Inr res)
  with assms have res: "res = (se', st', out)" by (simp add: on_message_with_def)
  from Inr obtain data where d: "message = Some data" "handle_data up rnd tk ws data (se, st) = Inr res"
    by (cases message) auto
  consider (reg) "register_pc rnd tk ws data (se, st) = res"
    | (join) "join_room up ws data (se, st) = Inr res"
    | (rel) "relay ws data (se, st) = res"
    | (none) "res = (se, st, [])"
    using d(2) by (auto simp: handle_data_def split: if_splits)
  then show ?thesis
  proof cases
    case reg
    with res register_pc_rooms show ?thesis by blast
  next
    case join
    with res join_room_rooms show ?thesis by blast
  next
    case rel
    with res relay_rooms show ?thesis by blast
  next
    case none
    with res show ?thesis by simp
  qed
qed

lemma on_close_rooms:
  assumes "on_close (se, st) = (st', out)"
  shows "rooms st' = rooms st
       \<or> (\<exists>c v. rooms st' = AList.update c v (rooms st) \<and> set (slots v) \<subseteq> old_slots (rooms st) c)"
proof (cases "session_room se st")
  case None
  with assms show ?thesis by (simp add: on_close_def)
next
  case (Some cr)
  obtain c r where cr: "cr = (c, r)" by (cases cr)
  with Some have r: "map_of (rooms st) c = Some r"
    by (auto simp: session_room_def split: option.splits if_splits)
  consider (pc) "deviceType se = Some Pc" | (mobile) "deviceType se = Some Mobile"
    | (none) "deviceType se \<noteq> Some Pc" "deviceType se \<noteq> Some Mobile" by blast
  then show ?thesis
  proof cases
    case pc
    with assms Some cr
    have u: "rooms st' = AList.update c (r\<lparr>cleanupTimeout := Some (nextTimer st)\<rparr>) (rooms st)"
      by (auto simp: on_close_def setTimeout_def Let_def)
    have "set (slots (r\<lparr>cleanupTimeout := Some (nextTimer st)\<rparr>)) \<subseteq> old_slots (rooms st) c"
      by (simp add: slots_def old_slots_def r)
    with u show ?thesis by blast
  next
    case mobile
    with assms Some cr
    have u: "rooms st' = AList.update c (r\<lparr>mobile := None\<rparr>) (rooms st)"
      by (auto simp: on_close_def Let_def)
    have "set (slots (r\<lparr>mobile := None\<rparr>)) \<subseteq> old_slots (rooms st) c"
      by (auto simp: slots_def old_slots_def r split: option.splits)
    with u show ?thesis by blast
  next
    case none
    with assms Some cr show ?thesis by (simp add: on_close_def)
  qed
qed

lemma cleanup_callback_rooms:
  "rooms (cleanup_callback c st) = rooms st \<or> rooms (cleanup_callback c st) = AList.delete c (rooms st)"
  by (simp add: cleanup_callback_def Let_def split: option.splits)

lemma on_close_exclusive:
  assumes "exclusive (rooms st)"
  shows "exclusive (rooms (fst (on_close (se, st))))"
proof -
  obtain st' out where m: "on_close (se, st) = (st', out)" by (cases "on_close (se, st)")
  from on_close_rooms [OF m] have "exclusive (rooms st')"
  proof
    assume "rooms st' = rooms st"
    with assms show ?thesis by simp
  next
    assume "\<exists>c v. rooms st' = AList.update c v (rooms st) \<and> set (slots v) \<subseteq> old_slots (rooms st) c"
    then obtain c v where "rooms st' = AList.update c v (rooms st)"
        "set (slots v) \<subseteq> old_slots (rooms st) c" by blast
    with exclusive_shrink [OF assms] show ?thesis by simp
  qed
  with m show ?thesis by simp
qed

text \<open>
  C6 (as amended). Exclusivity is kept by every message of a socket that no room refers to
  except the room its session is bound to after the message (the room it registers, reclaims
  or joins), by every close event and by every cleanup. Nothing unbinds a socket from the
  room it was in before when it registers or joins again.
\<close>

theorem exclusive_preserved:
  assumes "exclusive (rooms st)"
  shows "(case on_message rnd tk ws message (se, st) of (se', st', out) \<Rightarrow>
            referenced_only_in ws (currentRoom se') (rooms st) \<longrightarrow> exclusive (rooms st'))
       \<and> exclusive (rooms (fst (close_event ws (se, st))))
       \<and> exclusive (rooms (cleanup_callback c st))"
proof (intro conjI)
  obtain se' st' out where m: "on_message rnd tk ws message (se, st) = (se', st', out)"
    by (metis prod_cases3)
  have "exclusive (rooms st')" if only: "referenced_only_in ws (currentRoom se') (rooms st)"
    using on_message_rooms [OF m [unfolded on_message_def]]
  proof
    assume "rooms st' = rooms st"
    with assms show ?thesis by simp
  next
    assume "\<exists>c. currentRoom se' = Some c \<and> room_step ws c (rooms st) (rooms st')"
    then obtain c v where c: "currentRoom se' = Some c" "rooms st' = AList.update c v (rooms st)"
        "set (slots v) \<subseteq> insert ws (old_slots (rooms st) c)"
      by (auto simp: room_step_def)
    from exclusive_update [OF assms c(3)] only c(1,2) show ?thesis by simp
  qed
  with m show "case on_message rnd tk ws message (se, st) of (se', st', out) \<Rightarrow>
            referenced_only_in ws (currentRoom se') (rooms st) \<longrightarrow> exclusive (rooms st')"
    by simp
next
  have "exclusive (rooms (st\<lparr>readyState := (readyState st)(ws := CLOSED)\<rparr>))"
    using assms by simp
  from on_close_exclusive [OF this, of se]
  show "exclusive (rooms (fst (close_event ws (se, st))))"
    by (simp add: close_event_def)
next
  show "exclusive (rooms (cleanup_callback c st))"
    using cleanup_callback_rooms [of c st] assms exclusive_delete by auto
qed

theorem exclusive_preserved_witness:
  "exclusive (rooms ex_broker2)
   \<and> (case on_message ex_rnd ex_tk 3 (Some (ex_join ''aaaaaa'')) (new_session, ex_broker2) of
        (se', st', out) \<Rightarrow>
          referenced_only_in 3 (currentRoom se') (rooms ex_broker2)
          \<and> bound_secondaries st' ''AAAAAA'' = {3}
          \<and> exclusive (rooms st'))
   \<and> exclusive (rooms (fst (close_event 1 (ex_pc_session, ex_broker2))))
   \<and> exclusive (rooms (cleanup_callback ''AEJNSW'' ex_broker2))"
proof -
  have e: "exclusive (rooms ex_broker2)"
    by (simp add: ex_broker2_def ex_broker_def ex_room_def fresh_room_def exclusive_def slots_def)
  have u: "toUpperCase ''aaaaaa'' = ''AAAAAA''"
    by (simp add: toUpperCase_def toUpperCase_char_def lower_letters_def upper_letters_def)
  have j: "prop_of (ex_join ''aaaaaa'') ''type'' = Some (JStr ''join_room'')"
    "prop_of (ex_join ''aaaaaa'') ''roomCode'' = Some (JStr ''aaaaaa'')"
    "map_of (rooms ex_broker2) (toUpperCase ''aaaaaa'') = Some (fresh_room 4 ''zzlq2g'' 0)"
    by (simp_all add: u ex_join_def prop_of_def ex_broker2_def ex_broker_def)
  have r: "referenced_only_in 3 (Some ''AAAAAA'') (rooms ex_broker2)"
    by (simp add: ex_broker2_def ex_broker_def ex_room_def fresh_room_def referenced_only_in_def slots_def)
  show ?thesis
    using exclusive_preserved [OF e, where rnd = ex_rnd and tk = ex_tk and ws = 3
        and message = "Some (ex_join ''aaaaaa'')" and se = new_session and c = "''AEJNSW''"]
      exclusive_preserved [OF e, where ws = 1 and se = ex_pc_session]
      join_room_found [OF j, where rnd = ex_rnd and tk = ex_tk and ws = 3 and se = new_session]
      e r
    by (auto simp: u bound_secondaries_def split: prod.splits)
qed

text \<open>
  C6 as stated fails: socket 1 registers twice; the rooms of the first and of the second
  registration both have it as primary.
\<close>

theorem register_twice_counterexample:
  "exclusive (rooms (fst (snd trace_register))) \<and> \<not> exclusive (rooms (fst (snd trace_register_again)))"
  by (simp add: trace_register_again_eval trace_register_eval exclusive_def slots_def fresh_room_def)

subsection \<open>Closing and cleanup\<close>

text \<open>
  When the primary's connection closes, the room and its token stay, the secondary is told
  when it is open, and a cleanup is scheduled for 3600000 milliseconds later; the cleanup
  deletes the room and its token; a task does not run before it is due.
\<close>

lemma primary_close_schedules_cleanup:
  assumes "currentRoom se = Some c" and "c \<noteq> []"
    and "map_of (rooms st) c = Some r"
    and "deviceType se = Some Pc"
  shows "on_close (se, st)
       = (st\<lparr>timers := timers st @ [(nextTimer st, now st + 3600000, c)],
             nextTimer := nextTimer st + 1,
             rooms := AList.update c (r\<lparr>cleanupTimeout := Some (nextTimer st)\<rparr>) (rooms st)\<rparr>,
          (case mobile r of
             None \<Rightarrow> []
           | Some m \<Rightarrow> if readyState st m = OPEN then [Send m msg_pc_disconnected] else []))"
  using assms
  by (simp add: on_close_def session_room_def setTimeout_def is_open_def Let_def split: option.splits)

lemma cleanup_deletes_room_and_token:
  assumes "map_of (rooms st) c = Some r"
  shows "map_of (rooms (cleanup_callback c st)) c = None
       \<and> (reconnectionToken r \<noteq> []
            \<longrightarrow> map_of (reconnectionTokens (cleanup_callback c st)) (reconnectionToken r) = None)"
  using assms by (simp add: cleanup_callback_def Let_def delete_conv')

lemma fire_timer_not_before_due:
  assumes "map_of (timers st) h = Some (due, c)" and "now st < due"
  shows "fire_timer h st = None"
  using assms by (simp add: fire_timer_def)

lemma secondary_close_clears_slot:
  assumes "currentRoom se = Some c" and "c \<noteq> []"
    and "map_of (rooms st) c = Some r"
    and "deviceType se = Some Mobile"
  shows "on_close (se, st)
       = (st\<lparr>rooms := AList.update c (r\<lparr>mobile := None\<rparr>) (rooms st)\<rparr>,
          (case pc r of
             None \<Rightarrow> []
           | Some p \<Rightarrow> if readyState st p = OPEN then [Send p msg_mobile_disconnected] else []))"
  using assms
  by (simp add: on_close_def session_room_def is_open_def Let_def split: option.splits)

text \<open>
  C2. The claim that a room stays resolvable through its token for 3600 seconds after its
  bound primary has closed does not hold in the run above: socket 2 is the bound primary of
  \<open>AEJNSW\<close>, it closes at 3540000 ms, the room and the token are kept and a cleanup is
  scheduled for 3540000 + 3600000 ms; at 3600000 ms, 60 seconds later, the cleanup left over
  from the close event of the replaced socket 1 runs and deletes the room and the token.
\<close>

theorem stale_cleanup_deletes_reclaimed_room:
  "bound_primaries (fst (snd trace_reclaim)) ''AEJNSW'' = {2}
   \<and> now (fst trace_close_new) = 3540000
   \<and> map_of (rooms (fst trace_close_new)) ''AEJNSW'' \<noteq> None
   \<and> map_of (reconnectionTokens (fst trace_close_new)) ''k3x9lq2f'' = Some ''AEJNSW''
   \<and> map_of (timers (fst trace_close_new)) 1 = Some (3540000 + 3600000, ''AEJNSW'')
   \<and> now (advance 60000 (fst trace_close_new)) = 3540000 + 60000
   \<and> map_option rooms trace_cleanup = Some []
   \<and> map_option reconnectionTokens trace_cleanup = Some []"
  by (simp add: trace_reclaim_eval trace_close_new_eval trace_cleanup_eval bound_primaries_def fresh_room_def advance_def)

subsection \<open>The earlier variant\<close>

text \<open>
  In \<^verbatim>\<open>src/unnamed/part_001\<close> a registration reads no token and always makes a room,
  and the close of the primary deletes the room at once.
\<close>

lemma register_pc_v1_creates_room:
  "register_pc_v1 rnd ws data (se, rs)
   = (\<lparr>currentRoom = Some (generateRoomCode rnd), deviceType = Some Pc\<rparr>,
      AList.update (generateRoomCode rnd) \<lparr>pc_v1 = Some ws, mobile_v1 = None\<rparr> rs,
      [Send ws (msg_registered_v1 (generateRoomCode rnd))])"
  by (simp add: register_pc_v1_def Let_def)

lemma on_close_pc_v1_deletes_room:
  assumes "c \<noteq> []" and "map_of rs c = Some r"
  shows "map_of (fst (on_close_pc_v1 ready c rs)) c = None"
  using assms by (simp add: on_close_pc_v1_def delete_conv')

end
